theory Spec2Isabelle
  imports Complex_Main
begin

section \<open>Data model of \<open>script.js\<close>\<close>

text \<open>
  The program keeps one global document \<open>posData\<close> and a few global variables
  (\<open>currentCart\<close>, \<open>currentGrnItems\<close>, \<open>editingCreditBillId\<close>). Every object literal of
  the source is a record here, with the field names of the source behind a prefix
  (record fields share one name space). Amounts of money are JavaScript numbers read with
  \<open>parseFloat\<close>; they are rationals here, so a sum or a difference is exact. Quantities,
  stock levels and thresholds are read with \<open>parseInt\<close> and are integers. \<open>NaN\<close> is
  modelled only where the source tests for it (\<open>isNaN\<close> on a form input): such an
  input is an \<open>option\<close>, with \<open>None\<close> for a text that does not parse.
\<close>

record shop =
  shop_name :: string
  shop_address :: string
  shop_tp :: string
  shop_dashboardLogo :: string
  shop_receiptLogo :: string

record inventory_item =
  item_id :: string
  item_code :: string
  item_name :: string
  item_description :: string
  item_price :: rat
  item_stock :: int
  item_threshold :: int

record customer =
  cust_id :: string
  cust_name :: string
  cust_address :: string
  cust_tp :: string
  cust_creditLimit :: rat
  cust_outstandingCredit :: rat

record channel =
  chan_id :: string
  chan_name :: string
  chan_regNo :: string
  chan_address :: string
  chan_hotline :: string
  chan_receiptLogo :: string

text \<open>
  A cart line is \<open>{ ...item, qty: quantity }\<close>: the fields of the item it was made from
  and the quantity. A manual item that is not in the inventory has \<open>stock: Infinity\<close> and
  no threshold; \<open>None\<close> stands for both (and for the \<open>null\<close> that
  \<open>JSON.stringify\<close> writes for \<open>Infinity\<close>).
\<close>

record cart_item =
  line_id :: string
  line_code :: string
  line_name :: string
  line_description :: string
  line_price :: rat
  line_stock :: "int option"
  line_threshold :: "int option"

record cart_line = cart_item +
  line_qty :: int

record customer_details =
  cd_type :: string
  cd_id :: string
  cd_name :: string
  cd_address :: string
  cd_tp :: string

record cheque_details =
  chq_number :: string
  chq_bank :: string
  chq_dueDate :: string

record sale =
  sale_id :: string
  sale_date :: string
  sale_time :: string
  sale_customer :: customer_details
  sale_channelId :: string
  sale_items :: "cart_line list"
  sale_subtotal :: rat
  sale_discountType :: string
  sale_discountValue :: "rat option"
  sale_discountAmount :: rat
  sale_grandTotal :: rat
  sale_paymentMethod :: string
  sale_paymentRef :: string
  sale_chequeDetails :: "cheque_details option"

record grn_line =
  gl_id :: string
  gl_code :: string
  gl_name :: string
  gl_qty :: int

record grn =
  grn_id :: string
  grn_date :: string
  grn_supplier :: string
  grn_items :: "grn_line list"

record quotation =
  quo_id :: string
  quo_date :: string
  quo_customerName :: string
  quo_items :: "cart_line list"
  quo_total :: rat

record payment =
  pay_id :: string
  pay_date :: string
  pay_billId :: string
  pay_amount :: rat
  pay_method :: string
  pay_reference :: string
  pay_chequeDetails :: "cheque_details option"

record credit_bill =
  cb_id :: string
  cb_billId :: string
  cb_customerId :: string
  cb_totalAmount :: rat
  cb_paidAmount :: rat
  cb_dueAmount :: rat
  cb_billDate :: string
  cb_dueDate :: string
  cb_paymentHistory :: "payment list"

record cheque =
  cheque_id :: string
  cheque_billId :: string
  cheque_chequeNumber :: string
  cheque_bank :: string
  cheque_amount :: rat
  cheque_dueDate :: string
  cheque_status :: string

record pos_data =
  pd_shop :: shop
  inventory :: "inventory_item list"
  customers :: "customer list"
  distributionChannels :: "channel list"
  sales :: "sale list"
  grns :: "grn list"
  quotations :: "quotation list"
  payments :: "payment list"
  creditBills :: "credit_bill list"
  cheques :: "cheque list"

text \<open>
  Every handler of the source reports a failure with \<open>showModal('Error', ...)\<close> and
  returns early. Each such return is one constructor.
\<close>

datatype error =
    CartEmpty
  | NoCustomerSelected
  | CustomerNotFound
  | CreditOnlyRegistered
  | CreditLimitExceeded
  | ChequeDetailsMissing
  | CreditBillNotFound
  | InvalidPaymentAmount
  | PaymentExceedsDue
  | CannotDeleteMainChannel
  | ChequeNotFound
  | GrnIncomplete
  | NotEnoughStock
  | ItemNotFound
  | InvalidNumbers
  | DuplicateCode
  | LogoUploadFailed
  | NullDereference

section \<open>Array helpers\<close>

text \<open>
  \<open>Array.prototype.find\<close> is \<^const>\<open>find\<close> of the list library. The source's idiom
  \<^verbatim>\<open>const x = arr.find(p); if (x) { x.f = ...; }\<close>
  mutates the first element that satisfies \<open>p\<close> in place and leaves the array alone
  when there is none.
\<close>

fun update_first :: "('a \<Rightarrow> bool) \<Rightarrow> ('a \<Rightarrow> 'a) \<Rightarrow> 'a list \<Rightarrow> 'a list" where
  "update_first p f [] = []"
| "update_first p f (x # xs) = (if p x then f x # xs else x # update_first p f xs)"

text \<open>
  \<open>Array.prototype.findIndex\<close>, with \<open>None\<close> for \<open>-1\<close>, and
  \<open>arr.splice(k, 1)\<close>.
\<close>

fun findIndex :: "('a \<Rightarrow> bool) \<Rightarrow> 'a list \<Rightarrow> nat option" where
  "findIndex p [] = None"
| "findIndex p (x # xs) = (if p x then Some 0 else map_option Suc (findIndex p xs))"

definition splice1 :: "nat \<Rightarrow> 'a list \<Rightarrow> 'a list" where
  "splice1 k xs = take k xs @ drop (Suc k) xs"

text \<open>\<open>String.prototype.trim\<close>, on the white space of ASCII.\<close>

definition js_space :: "char \<Rightarrow> bool" where
  "js_space c = (c \<in> set [CHR '' '', CHR 0x09, CHR 0x0A, CHR 0x0B, CHR 0x0C, CHR 0x0D])"

definition trim :: "string \<Rightarrow> string" where
  "trim s = rev (dropWhile js_space (rev (dropWhile js_space s)))"

section \<open>Cheque tracking\<close>

text \<open>
  \<^verbatim>\<open>
  function updateChequeStatus(id, newStatus) {
      const chequeIndex = posData.cheques.findIndex(c => c.id === id);
      if (chequeIndex > -1) {
          posData.cheques[chequeIndex].status = newStatus;
          ...
      } else { showModal('Error', 'Cheque not found.'); }
  }
  \<close>
\<close>

definition updateChequeStatus :: "string \<Rightarrow> string \<Rightarrow> pos_data \<Rightarrow> error + pos_data" where
  "updateChequeStatus cid newStatus pd =
     (case findIndex (\<lambda>c. cheque_id c = cid) (cheques pd) of
        None \<Rightarrow> Inl ChequeNotFound
      | Some chequeIndex \<Rightarrow>
          Inr (pd\<lparr>cheques :=
                 (cheques pd)[chequeIndex :=
                    (cheques pd ! chequeIndex)\<lparr>cheque_status := newStatus\<rparr>]\<rparr>))"

section \<open>Credit bills\<close>

text \<open>
  \<open>deleteCreditBill(id)\<close> returns silently when no bill has the id. Otherwise it
  subtracts the bill's due amount from the first customer with the bill's
  \<open>customerId\<close> (when there is one), resets a negative balance to 0, and filters the
  bills by id.
\<close>

definition deleteCreditBill :: "string \<Rightarrow> pos_data \<Rightarrow> pos_data" where
  "deleteCreditBill bid pd =
     (case find (\<lambda>b. cb_id b = bid) (creditBills pd) of
        None \<Rightarrow> pd
      | Some creditBill \<Rightarrow>
          pd\<lparr>customers :=
               update_first (\<lambda>c. cust_id c = cb_customerId creditBill)
                 (\<lambda>c. let c1 = c\<lparr>cust_outstandingCredit :=
                                    cust_outstandingCredit c - cb_dueAmount creditBill\<rparr>
                      in if cust_outstandingCredit c1 < 0
                         then c1\<lparr>cust_outstandingCredit := 0\<rparr> else c1)
                 (customers pd),
             creditBills := filter (\<lambda>b. cb_id b \<noteq> bid) (creditBills pd)\<rparr>)"

text \<open>
  The inputs of the installment dialog, as the click handler of \<open>addInstallmentBtn\<close>
  reads them, and what the handler takes from its environment: the id of the record
  (\<open>generateUniqueId()\<close>), the id of the cheque row, and today's date.
\<close>

record installment_form =
  installmentAmountInput :: "rat option"
  installmentMethodSelect :: string
  installmentReferenceInput :: string
  installmentChequeNumberInput :: string
  installmentChequeBankInput :: string
  installmentChequeDueDateInput :: string

record installment_env =
  ienv_paymentId :: string
  ienv_chequeId :: string
  ienv_date :: string

definition addInstallment ::
  "installment_env \<Rightarrow> installment_form \<Rightarrow> string option \<Rightarrow> pos_data \<Rightarrow> error + pos_data" where
  "addInstallment e f editingCreditBillId pd =
     (case find (\<lambda>b. Some (cb_id b) = editingCreditBillId) (creditBills pd) of
        None \<Rightarrow> Inl CreditBillNotFound
      | Some creditBill \<Rightarrow>
         (case installmentAmountInput f of
            None \<Rightarrow> Inl InvalidPaymentAmount
          | Some paymentAmount \<Rightarrow>
             if paymentAmount \<le> 0 then Inl InvalidPaymentAmount
             else if paymentAmount > cb_dueAmount creditBill then Inl PaymentExceedsDue
             else
               let paymentMethod = installmentMethodSelect f;
                   paymentRef = trim (installmentReferenceInput f);
                   chequeNumber = trim (installmentChequeNumberInput f);
                   chequeBank = trim (installmentChequeBankInput f);
                   chequeDueDate = installmentChequeDueDateInput f
               in
               if paymentMethod = ''cheque'' \<and>
                  (chequeNumber = [] \<or> chequeBank = [] \<or> chequeDueDate = [])
               then Inl ChequeDetailsMissing
               else
                 let chequeDetails =
                       (if paymentMethod = ''cheque''
                        then Some \<lparr>chq_number = chequeNumber, chq_bank = chequeBank,
                                   chq_dueDate = chequeDueDate\<rparr>
                        else None);
                     newPaymentRecord =
                       \<lparr>pay_id = ienv_paymentId e, pay_date = ienv_date e,
                        pay_billId = cb_billId creditBill, pay_amount = paymentAmount,
                        pay_method = paymentMethod, pay_reference = paymentRef,
                        pay_chequeDetails = chequeDetails\<rparr>
                 in Inr (pd\<lparr>
                      creditBills :=
                        update_first (\<lambda>b. Some (cb_id b) = editingCreditBillId)
                          (\<lambda>b. b\<lparr>cb_paidAmount := cb_paidAmount b + paymentAmount,
                                  cb_dueAmount := cb_dueAmount b - paymentAmount,
                                  cb_paymentHistory := cb_paymentHistory b @ [newPaymentRecord]\<rparr>)
                          (creditBills pd),
                      payments := payments pd @ [newPaymentRecord],
                      customers :=
                        update_first (\<lambda>c. cust_id c = cb_customerId creditBill)
                          (\<lambda>c. c\<lparr>cust_outstandingCredit :=
                                    cust_outstandingCredit c - paymentAmount\<rparr>)
                          (customers pd),
                      cheques :=
                        (case chequeDetails of
                           None \<Rightarrow> cheques pd
                         | Some d \<Rightarrow>
                             cheques pd @
                               [\<lparr>cheque_id = ienv_chequeId e, cheque_billId = cb_billId creditBill,
                                 cheque_chequeNumber = chq_number d, cheque_bank = chq_bank d,
                                 cheque_amount = paymentAmount, cheque_dueDate = chq_dueDate d,
                                 cheque_status = ''Pending''\<rparr>])\<rparr>)))"

text \<open>
  The object \<open>newPaymentRecord\<close> of the installment handler, as a function of what it is
  built from.
\<close>

definition installmentRecord :: "installment_env \<Rightarrow> installment_form \<Rightarrow> credit_bill \<Rightarrow> rat \<Rightarrow> payment" where
  "installmentRecord e f b amt =
     \<lparr>pay_id = ienv_paymentId e, pay_date = ienv_date e, pay_billId = cb_billId b,
      pay_amount = amt, pay_method = installmentMethodSelect f,
      pay_reference = trim (installmentReferenceInput f),
      pay_chequeDetails =
        (if installmentMethodSelect f = ''cheque''
         then Some \<lparr>chq_number = trim (installmentChequeNumberInput f),
                    chq_bank = trim (installmentChequeBankInput f),
                    chq_dueDate = installmentChequeDueDateInput f\<rparr>
         else None)\<rparr>"

section \<open>Distribution channels\<close>

text \<open>
  The submit handler of \<open>addDistributionChannelForm\<close> reads four text inputs and picks
  the logo: an uploaded file (whose conversion may fail, which ends the handler with an
  error), else the link input when it is not empty, else a placeholder. The id of the new
  channel is \<open>generateUniqueId()\<close>, that is \<open>crypto.randomUUID()\<close>; it is an argument
  here.
\<close>

datatype upload = NoFile | FileRead string | FileReadFailed

record channel_form =
  distChannelNameInput :: string
  distChannelRegNoInput :: string
  distChannelAddressInput :: string
  distChannelHotlineInput :: string
  distChannelReceiptLogoUpload :: upload
  distChannelReceiptLogoLink :: string

definition placeholderLogo :: string where
  "placeholderLogo = ''https://placehold.co/80x80/000000/FFFFFF?text=LOGO''"

definition addDistributionChannel :: "string \<Rightarrow> channel_form \<Rightarrow> pos_data \<Rightarrow> error + pos_data" where
  "addDistributionChannel newId f pd =
     (case distChannelReceiptLogoUpload f of
        FileReadFailed \<Rightarrow> Inl LogoUploadFailed
      | u \<Rightarrow>
         let receiptLogo =
               (case u of
                  FileRead b64 \<Rightarrow> b64
                | _ \<Rightarrow> if distChannelReceiptLogoLink f \<noteq> []
                       then trim (distChannelReceiptLogoLink f) else placeholderLogo);
             newChannel =
               \<lparr>chan_id = newId, chan_name = trim (distChannelNameInput f),
                chan_regNo = trim (distChannelRegNoInput f),
                chan_address = trim (distChannelAddressInput f),
                chan_hotline = trim (distChannelHotlineInput f),
                chan_receiptLogo = receiptLogo\<rparr>
         in Inr (pd\<lparr>distributionChannels := distributionChannels pd @ [newChannel]\<rparr>))"

definition deleteDistributionChannel :: "string \<Rightarrow> pos_data \<Rightarrow> error + pos_data" where
  "deleteDistributionChannel cid pd =
     (if cid = ''main'' then Inl CannotDeleteMainChannel
      else Inr (pd\<lparr>distributionChannels :=
                    filter (\<lambda>channel. chan_id channel \<noteq> cid) (distributionChannels pd)\<rparr>))"

section \<open>Loading the persisted document\<close>

text \<open>
  \<open>localStorage.getItem\<close> gives \<open>null\<close> (or an empty text), a text that
  \<open>JSON.parse\<close> rejects, or a document. A key of the document may be absent or hold
  \<open>null\<close>; \<open>None\<close> stands for both, since the spread
  \<open>{ ...defaultPOSData, ...posData }\<close> followed by \<open>x || fallback\<close> gives the same
  value in the two cases. A stored inventory item may lack its threshold.
\<close>

record stored_item =
  si_id :: string
  si_code :: string
  si_name :: string
  si_description :: string
  si_price :: rat
  si_stock :: int
  si_threshold :: "int option"

record stored_doc =
  doc_shop :: "shop option"
  doc_inventory :: "stored_item list option"
  doc_customers :: "customer list option"
  doc_distributionChannels :: "channel list option"
  doc_sales :: "sale list option"
  doc_grns :: "grn list option"
  doc_quotations :: "quotation list option"
  doc_payments :: "payment list option"
  doc_creditBills :: "credit_bill list option"
  doc_cheques :: "cheque list option"

datatype storage = NoItem | Unparsable | Parsed stored_doc

definition mainChannel :: channel where
  "mainChannel =
     \<lparr>chan_id = ''main'', chan_name = ''Main Shop'', chan_regNo = [],
      chan_address = ''123 Main Street, Colombo, Sri Lanka'', chan_hotline = ''077-1234567'',
      chan_receiptLogo = placeholderLogo\<rparr>"

definition defaultPOSData :: pos_data where
  "defaultPOSData =
     \<lparr>pd_shop =
        \<lparr>shop_name = ''Your Shop Name'',
         shop_address = ''123 Main Street, Colombo, Sri Lanka'',
         shop_tp = ''077-1234567'',
         shop_dashboardLogo = ''https://placehold.co/60x60/000000/FFFFFF?text=LOGO'',
         shop_receiptLogo = placeholderLogo\<rparr>,
      inventory = [], customers = [], distributionChannels = [mainChannel],
      sales = [], grns = [], quotations = [], payments = [], creditBills = [], cheques = []\<rparr>"

text \<open>\<open>x || fallback\<close> on a value that is an array when it is there.\<close>

definition or_else :: "'a option \<Rightarrow> 'a \<Rightarrow> 'a" where
  "or_else x fallback = (case x of None \<Rightarrow> fallback | Some v \<Rightarrow> v)"

text \<open>
  \<open>item.threshold || 0\<close>: a missing threshold and the threshold 0 are both falsy.
\<close>

definition migrate_item :: "stored_item \<Rightarrow> inventory_item" where
  "migrate_item item =
     \<lparr>item_id = si_id item, item_code = si_code item, item_name = si_name item,
      item_description = si_description item, item_price = si_price item,
      item_stock = si_stock item,
      item_threshold =
        (case si_threshold item of None \<Rightarrow> 0 | Some t \<Rightarrow> if t = 0 then 0 else t)\<rparr>"

definition loadPOSData :: "storage \<Rightarrow> pos_data" where
  "loadPOSData st =
     (case st of
        Parsed d \<Rightarrow>
          \<lparr>pd_shop = or_else (doc_shop d) (pd_shop defaultPOSData),
           inventory = map migrate_item (or_else (doc_inventory d) []),
           customers = or_else (doc_customers d) [],
           distributionChannels =
             or_else (doc_distributionChannels d) (distributionChannels defaultPOSData),
           sales = or_else (doc_sales d) [],
           grns = or_else (doc_grns d) [],
           quotations = or_else (doc_quotations d) [],
           payments = or_else (doc_payments d) [],
           creditBills = or_else (doc_creditBills d) [],
           cheques = or_else (doc_cheques d) []\<rparr>
      | _ \<Rightarrow> defaultPOSData)"

section \<open>Inventory\<close>

text \<open>
  The inputs of the inventory form after \<open>parseFloat\<close> and \<open>parseInt\<close>; \<open>None\<close> is
  \<open>NaN\<close>.
\<close>

record item_form =
  itemCodeInput :: string
  itemNameInput :: string
  itemDescriptionInput :: string
  itemPriceInput :: "rat option"
  itemStockInput :: "int option"
  itemthresholdInput :: "int option"

definition valid_numbers :: "item_form \<Rightarrow> (rat \<times> int \<times> int) option" where
  "valid_numbers f =
     (case (itemPriceInput f, itemStockInput f, itemthresholdInput f) of
        (Some price, Some stock, Some threshold) \<Rightarrow>
          if price < 0 \<or> stock < 0 \<or> threshold < 0 then None
          else Some (price, stock, threshold)
      | _ \<Rightarrow> None)"

definition addInventoryItem :: "string \<Rightarrow> item_form \<Rightarrow> pos_data \<Rightarrow> error + pos_data" where
  "addInventoryItem newId f pd =
     (case valid_numbers f of
        None \<Rightarrow> Inl InvalidNumbers
      | Some (price, stock, threshold) \<Rightarrow>
          (case find (\<lambda>item. item_code item = trim (itemCodeInput f)) (inventory pd) of
             Some _ \<Rightarrow> Inl DuplicateCode
           | None \<Rightarrow>
               Inr (pd\<lparr>inventory := inventory pd @
                      [\<lparr>item_id = newId, item_code = trim (itemCodeInput f),
                        item_name = trim (itemNameInput f),
                        item_description = trim (itemDescriptionInput f),
                        item_price = price, item_stock = stock,
                        item_threshold = threshold\<rparr>]\<rparr>)))"

text \<open>
  \<open>editInventoryItem(id)\<close> looks the item up and installs a submit handler that writes
  the form into that object. The handler is \<open>editInventoryItemSubmit\<close>; the object is
  addressed by its id here (ids are \<open>crypto.randomUUID()\<close> tokens), and when the item has
  left the array meanwhile the handler changes an object that \<open>posData\<close> no longer
  holds. Which object the handler writes to is the subject of the store model below.
\<close>

definition editInventoryItemSubmit :: "string \<Rightarrow> item_form \<Rightarrow> pos_data \<Rightarrow> error + pos_data" where
  "editInventoryItemSubmit iid f pd =
     (case valid_numbers f of
        None \<Rightarrow> Inl InvalidNumbers
      | Some (updatedPrice, updatedStock, updatedThreshold) \<Rightarrow>
          (case find (\<lambda>i. item_id i = iid) (inventory pd) of
             None \<Rightarrow> Inr pd
           | Some item \<Rightarrow>
               let updatedCode = trim (itemCodeInput f) in
               if updatedCode \<noteq> item_code item \<and>
                  list_ex (\<lambda>i. item_code i = updatedCode \<and> item_id i \<noteq> iid) (inventory pd)
               then Inl DuplicateCode
               else Inr (pd\<lparr>inventory :=
                      update_first (\<lambda>i. item_id i = iid)
                        (\<lambda>i. i\<lparr>item_code := updatedCode,
                                item_name := trim (itemNameInput f),
                                item_description := trim (itemDescriptionInput f),
                                item_price := updatedPrice,
                                item_stock := updatedStock,
                                item_threshold := updatedThreshold\<rparr>)
                        (inventory pd)\<rparr>)))"

definition deleteInventoryItem :: "string \<Rightarrow> pos_data \<Rightarrow> pos_data" where
  "deleteInventoryItem iid pd =
     pd\<lparr>inventory := filter (\<lambda>item. item_id item \<noteq> iid) (inventory pd)\<rparr>"

section \<open>Stock receipts\<close>

text \<open>
  The loop of the GRN submit handler:
  \<^verbatim>\<open>
  newGrn.items.forEach(grnItem => {
      const inventoryItem = posData.inventory.find(item => item.id === grnItem.id);
      if (inventoryItem) { inventoryItem.stock += grnItem.qty; }
  });
  \<close>
\<close>

definition receiveStock :: "grn_line list \<Rightarrow> inventory_item list \<Rightarrow> inventory_item list" where
  "receiveStock lines stock0 =
     foldl (\<lambda>items grnItem.
              update_first (\<lambda>item. item_id item = gl_id grnItem)
                (\<lambda>item. item\<lparr>item_stock := item_stock item + gl_qty grnItem\<rparr>) items)
       stock0 lines"

record grn_form =
  grnSupplierInput :: string
  grnDateInput :: string



section \<open>Billing\<close>

text \<open>
  \<open>formatCurrency(amount)\<close> writes \<open>LKR\<close> and \<open>amount.toFixed(2)\<close> into a span, and
  the handlers read the number back with \<open>parseFloat(span.textContent.replace('LKR ', ''))\<close>.
  \<open>toFixed(2)\<close> takes the integer \<open>n\<close> for which \<open>n / 100\<close> is nearest to the
  magnitude of the number, the larger one of two; the span is modelled by the number that is
  read back from it.
\<close>

definition toFixed2 :: "rat \<Rightarrow> rat" where
  "toFixed2 x =
     (if x < 0 then - (of_int \<lfloor>(- x) * 100 + 1 / 2\<rfloor> / 100)
      else of_int \<lfloor>x * 100 + 1 / 2\<rfloor> / 100)"

definition formatCurrency :: "rat \<Rightarrow> rat" where
  "formatCurrency amount = toFixed2 amount"

text \<open>
  The elements of the billing section that the handlers read and write. A select holds
  its value, a text input its text, the discount input the result of \<open>parseFloat\<close> on its
  text (\<open>None\<close> is \<open>NaN\<close>), a span the number it shows.
\<close>

record billing_form =
  customerTypeSelect :: string
  walkingCustomerNameInput :: string
  walkingCustomerAddressInput :: string
  walkingCustomerTpInput :: string
  registeredCustomerDropdown :: string
  distributionChannelDropdown :: string
  cartSubtotalSpan :: rat
  discountTypeSelect :: string
  discountValueInput :: "rat option"
  cartGrandtotalSpan :: rat
  paymentMethodSelect :: string
  paymentReferenceInput :: string
  chequeNumberInput :: string
  chequeBankInput :: string
  chequeDueDateInput :: string

record app =
  posData :: pos_data
  currentCart :: "cart_line list"
  billing :: billing_form

text \<open>
  \<open>calculateGrandTotal(currentSubtotal = null)\<close>. On a discount that is \<open>NaN\<close> or
  negative it writes 0 into the input and calls itself with the subtotal.
\<close>

definition bad_discount :: "rat option \<Rightarrow> bool" where
  "bad_discount v = (case v of None \<Rightarrow> True | Some d \<Rightarrow> d < 0)"

function calculateGrandTotal :: "rat option \<Rightarrow> billing_form \<Rightarrow> billing_form" where
  "calculateGrandTotal currentSubtotal f =
     (let subtotal = (case currentSubtotal of Some s \<Rightarrow> s | None \<Rightarrow> cartSubtotalSpan f) in
      if bad_discount (discountValueInput f)
      then calculateGrandTotal (Some subtotal) (f\<lparr>discountValueInput := Some 0\<rparr>)
      else
        let discountValue = the (discountValueInput f);
            discountAmount =
              (if discountTypeSelect f = ''lkr'' then discountValue
               else (subtotal * discountValue) / 100);
            discountAmount = min discountAmount subtotal;
            grandTotal = subtotal - discountAmount
        in f\<lparr>cartGrandtotalSpan := formatCurrency grandTotal\<rparr>)"
  by pat_completeness auto
termination
  by (relation "measure (\<lambda>(s, f). if bad_discount (discountValueInput f) then 1 else 0)")
     (auto simp: bad_discount_def)

text \<open>
  \<open>renderCart()\<close> adds up \<open>item.price * item.qty\<close> over the cart, shows the sum and
  calls \<open>calculateGrandTotal\<close> with the sum as it is, not as it is shown.
\<close>

definition cartSubtotal :: "cart_line list \<Rightarrow> rat" where
  "cartSubtotal cart = foldl (\<lambda>subtotal item. subtotal + line_price item * of_int (line_qty item)) 0 cart"

definition renderCart :: "app \<Rightarrow> app" where
  "renderCart a =
     (let subtotal = cartSubtotal (currentCart a) in
      a\<lparr>billing :=
          calculateGrandTotal (Some subtotal)
            ((billing a)\<lparr>cartSubtotalSpan := formatCurrency subtotal\<rparr>)\<rparr>)"

definition resetBillingForm :: "app \<Rightarrow> app" where
  "resetBillingForm a =
     (let a1 = a\<lparr>billing := (billing a)\<lparr>
                 customerTypeSelect := ''walking'',
                 walkingCustomerNameInput := [],
                 walkingCustomerAddressInput := [],
                 walkingCustomerTpInput := [],
                 registeredCustomerDropdown := [],
                 distributionChannelDropdown := ''main''\<rparr>\<rparr>;
          a2 = renderCart (a1\<lparr>currentCart := []\<rparr>)
      in a2\<lparr>billing := (billing a2)\<lparr>
              discountTypeSelect := ''lkr'',
              discountValueInput := Some 0,
              paymentMethodSelect := ''cash'',
              paymentReferenceInput := [],
              chequeNumberInput := [],
              chequeBankInput := [],
              chequeDueDateInput := []\<rparr>\<rparr>)"

text \<open>
  \<open>inventoryItem && q > inventoryItem.stock\<close>, the stock test of the three cart
  functions.
\<close>

definition exceeds_stock :: "inventory_item option \<Rightarrow> int \<Rightarrow> bool" where
  "exceeds_stock inventoryItem q =
     (case inventoryItem of None \<Rightarrow> False | Some i \<Rightarrow> q > item_stock i)"


text \<open>What \<open>{ ...item }\<close> is for an item of the inventory.\<close>

definition spread_item :: "inventory_item \<Rightarrow> cart_item" where
  "spread_item i =
     \<lparr>line_id = item_id i, line_code = item_code i, line_name = item_name i,
      line_description = item_description i, line_price = item_price i,
      line_stock = Some (item_stock i), line_threshold = Some (item_threshold i)\<rparr>"

text \<open>
  \<open>updateCartItemQuantity(itemId, newQty)\<close>. When the quantity exceeds the stock it
  shows an error and sets the quantity to the stock, so the cart changes on that path too.
\<close>

definition updateCartItemQuantity :: "string \<Rightarrow> int \<Rightarrow> app \<Rightarrow> app" where
  "updateCartItemQuantity itemId newQty a =
     (case findIndex (\<lambda>item. line_id item = itemId) (currentCart a) of
        None \<Rightarrow> a
      | Some cartItemIndex \<Rightarrow>
          let inventoryItem = find (\<lambda>i. item_id i = itemId) (inventory (posData a));
              setQty = (\<lambda>q. (currentCart a)[cartItemIndex :=
                              (currentCart a ! cartItemIndex)\<lparr>line_qty := q\<rparr>])
          in
          if exceeds_stock inventoryItem newQty
          then renderCart (a\<lparr>currentCart :=
                 (case inventoryItem of
                    Some i \<Rightarrow> setQty (item_stock i)
                  | None \<Rightarrow> currentCart a)\<rparr>)
          else if newQty \<le> 0
          then renderCart (a\<lparr>currentCart := splice1 cartItemIndex (currentCart a)\<rparr>)
          else renderCart (a\<lparr>currentCart := setQty newQty\<rparr>))"

definition removeCartItem :: "string \<Rightarrow> app \<Rightarrow> app" where
  "removeCartItem itemId a =
     renderCart (a\<lparr>currentCart := filter (\<lambda>item. line_id item \<noteq> itemId) (currentCart a)\<rparr>)"

text \<open>
  The click handler of \<open>processBillBtn\<close> takes from its environment the text of
  \<open>Date.now()\<close>, the date and the time of \<open>new Date()\<close>, and up to three fresh ids.
\<close>

record bill_env =
  benv_stamp :: string
  benv_date :: string
  benv_time :: string
  benv_walkingId :: string
  benv_paymentId :: string
  benv_creditBillId :: string
  benv_chequeId :: string

text \<open>
  The customer block of the handler: the details that go into the sale and
  \<open>selectedCustomer\<close>, which stays \<open>null\<close> for a walking customer.
\<close>

definition resolveCustomer ::
  "bill_env \<Rightarrow> billing_form \<Rightarrow> customer list \<Rightarrow> error + (customer_details \<times> customer option)" where
  "resolveCustomer e f cs =
     (if customerTypeSelect f = ''walking''
      then Inr (\<lparr>cd_type = ''walking'', cd_id = benv_walkingId e,
                 cd_name = (if trim (walkingCustomerNameInput f) = [] then ''Walking Customer''
                            else trim (walkingCustomerNameInput f)),
                 cd_address = trim (walkingCustomerAddressInput f),
                 cd_tp = trim (walkingCustomerTpInput f)\<rparr>, None)
      else
        let customerId = registeredCustomerDropdown f in
        if customerId = [] then Inl NoCustomerSelected
        else case find (\<lambda>c. cust_id c = customerId) cs of
               None \<Rightarrow> Inl CustomerNotFound
             | Some selectedCustomer \<Rightarrow>
                 Inr (\<lparr>cd_type = ''registered'', cd_id = cust_id selectedCustomer,
                       cd_name = cust_name selectedCustomer,
                       cd_address = cust_address selectedCustomer,
                       cd_tp = cust_tp selectedCustomer\<rparr>, Some selectedCustomer))"

text \<open>
  The credit block. \<open>selectedCustomer.outstandingCredit\<close> on \<open>null\<close> would throw; the
  walking test before it makes that branch unreachable, and it is a result of its own here.
\<close>

definition creditCheck :: "billing_form \<Rightarrow> customer option \<Rightarrow> rat \<Rightarrow> error option" where
  "creditCheck f selectedCustomer grandTotal =
     (if paymentMethodSelect f = ''credit'' then
        if customerTypeSelect f = ''walking'' then Some CreditOnlyRegistered
        else case selectedCustomer of
               None \<Rightarrow> Some NullDereference
             | Some c \<Rightarrow>
                 if cust_outstandingCredit c + grandTotal > cust_creditLimit c
                 then Some CreditLimitExceeded else None
      else None)"

definition readChequeDetails :: "billing_form \<Rightarrow> error + cheque_details option" where
  "readChequeDetails f =
     (if paymentMethodSelect f = ''cheque'' then
        let chequeNumber = trim (chequeNumberInput f);
            chequeBank = trim (chequeBankInput f);
            chequeDueDate = chequeDueDateInput f
        in if chequeNumber = [] \<or> chequeBank = [] \<or> chequeDueDate = []
           then Inl ChequeDetailsMissing
           else Inr (Some \<lparr>chq_number = chequeNumber, chq_bank = chequeBank,
                           chq_dueDate = chequeDueDate\<rparr>)
      else Inr None)"

text \<open>
  The stock loop of the handler:
  \<^verbatim>\<open>
  currentCart.forEach(cartItem => {
      const inventoryItem = posData.inventory.find(i => i.id === cartItem.id);
      if (inventoryItem) { inventoryItem.stock -= cartItem.qty; }
  });
  \<close>
\<close>

definition sellStock :: "cart_line list \<Rightarrow> inventory_item list \<Rightarrow> inventory_item list" where
  "sellStock cart stock0 =
     foldl (\<lambda>items cartItem.
              update_first (\<lambda>i. item_id i = line_id cartItem)
                (\<lambda>i. i\<lparr>item_stock := item_stock i - line_qty cartItem\<rparr>) items)
       stock0 cart"


definition processBill :: "bill_env \<Rightarrow> app \<Rightarrow> error + app" where
  "processBill e a =
     (if currentCart a = [] then Inl CartEmpty
      else
        let f = billing a; pd = posData a;
            grandTotal = cartGrandtotalSpan f;
            paymentMethod = paymentMethodSelect f;
            paymentRef = trim (paymentReferenceInput f)
        in
        case resolveCustomer e f (customers pd) of
          Inl err \<Rightarrow> Inl err
        | Inr (customerDetails, selectedCustomer) \<Rightarrow>
           (case creditCheck f selectedCustomer grandTotal of
              Some err \<Rightarrow> Inl err
            | None \<Rightarrow>
               (case readChequeDetails f of
                  Inl err \<Rightarrow> Inl err
                | Inr chequeDetails \<Rightarrow>
                   let billId = ''BILL-'' @ benv_stamp e;
                       newSale =
                         \<lparr>sale_id = billId, sale_date = benv_date e, sale_time = benv_time e,
                          sale_customer = customerDetails,
                          sale_channelId = distributionChannelDropdown f,
                          sale_items = currentCart a,
                          sale_subtotal = cartSubtotalSpan f,
                          sale_discountType = discountTypeSelect f,
                          sale_discountValue = discountValueInput f,
                          sale_discountAmount = cartSubtotalSpan f - grandTotal,
                          sale_grandTotal = grandTotal,
                          sale_paymentMethod = paymentMethod,
                          sale_paymentRef = paymentRef,
                          sale_chequeDetails = chequeDetails\<rparr>;
                       newPayment =
                         \<lparr>pay_id = benv_paymentId e, pay_date = benv_date e,
                          pay_billId = sale_id newSale, pay_amount = grandTotal,
                          pay_method = paymentMethod, pay_reference = paymentRef,
                          pay_chequeDetails = chequeDetails\<rparr>;
                       pd1 = pd\<lparr>sales := sales pd @ [newSale],
                                 inventory := sellStock (currentCart a) (inventory pd),
                                 payments := payments pd @ [newPayment]\<rparr>;
                       pd2 =
                         (if paymentMethod = ''credit'' then
                            (case selectedCustomer of
                               None \<Rightarrow> pd1
                             | Some c \<Rightarrow>
                                 pd1\<lparr>creditBills := creditBills pd1 @
                                        [\<lparr>cb_id = benv_creditBillId e, cb_billId = sale_id newSale,
                                          cb_customerId = cust_id c, cb_totalAmount = grandTotal,
                                          cb_paidAmount = 0, cb_dueAmount = grandTotal,
                                          cb_billDate = benv_date e, cb_dueDate = [],
                                          cb_paymentHistory = []\<rparr>],
                                      customers :=
                                        update_first (\<lambda>x. cust_id x = cust_id c)
                                          (\<lambda>x. x\<lparr>cust_outstandingCredit :=
                                                    cust_outstandingCredit x + grandTotal\<rparr>)
                                          (customers pd1)\<rparr>)
                          else pd1);
                       pd3 =
                         (case chequeDetails of
                            Some d \<Rightarrow>
                              pd2\<lparr>cheques := cheques pd2 @
                                     [\<lparr>cheque_id = benv_chequeId e, cheque_billId = sale_id newSale,
                                       cheque_chequeNumber = chq_number d, cheque_bank = chq_bank d,
                                       cheque_amount = grandTotal, cheque_dueDate = chq_dueDate d,
                                       cheque_status = ''Pending''\<rparr>]\<rparr>
                          | None \<Rightarrow> pd2)
                   in Inr (resetBillingForm (a\<lparr>posData := pd3\<rparr>)))))"

section \<open>The discount as the specification words it\<close>



section \<open>States reached by the channel operations\<close>

text \<open>
  The number of channels whose id is \<open>main\<close>, and the documents that loading, adding a
  channel and deleting a channel produce. A stored document is admitted as a start when
  its channel list is absent or holds exactly one channel with the id \<open>main\<close>; the id of
  a new channel is a \<open>crypto.randomUUID()\<close> token, which is never the text \<open>main\<close>.
\<close>

definition mainCount :: "pos_data \<Rightarrow> nat" where
  "mainCount pd = length (filter (\<lambda>c. chan_id c = ''main'') (distributionChannels pd))"

definition one_main_stored :: "storage \<Rightarrow> bool" where
  "one_main_stored st =
     (case st of
        Parsed d \<Rightarrow>
          (case doc_distributionChannels d of
             None \<Rightarrow> True
           | Some chs \<Rightarrow> length (filter (\<lambda>c. chan_id c = ''main'') chs) = 1)
      | _ \<Rightarrow> True)"

inductive channel_reachable :: "pos_data \<Rightarrow> bool" where
  loaded: "one_main_stored st \<Longrightarrow> channel_reachable (loadPOSData st)"
| added: "channel_reachable pd \<Longrightarrow> newId \<noteq> ''main'' \<Longrightarrow>
          addDistributionChannel newId f pd = Inr pd' \<Longrightarrow> channel_reachable pd'"
| deleted: "channel_reachable pd \<Longrightarrow> deleteDistributionChannel cid pd = Inr pd' \<Longrightarrow>
            channel_reachable pd'"

section \<open>Objects and references\<close>

text \<open>
  The model above passes records by value. Whether a recorded sale can change when the
  inventory changes is a question about which JavaScript objects the arrays share, so the
  inventory items, the cart lines and the lines of the sales are objects in a store here:
  an array holds addresses, \<open>arr.find\<close> returns an address, and an assignment to a field
  changes the object at that address for every array that holds it. \<open>{ ...item }\<close> and
  \<open>JSON.parse(JSON.stringify(...))\<close> allocate new objects. Customers, payments, credit
  bills and cheques are never reached from these arrays; what the handlers read of them is
  an argument here.

  An object has the fields of an item and, for a line, its \<open>qty\<close>. \<open>None\<close> in a numeric
  field stands for a value that is not an integer: an absent field, \<open>Infinity\<close> or
  \<open>NaN\<close>; arithmetic with such a value gives such a value.
\<close>

type_synonym addr = nat

record obj =
  o_id :: string
  o_code :: string
  o_name :: string
  o_description :: string
  o_price :: rat
  o_stock :: "int option"
  o_threshold :: "int option"
  o_qty :: "int option"

definition js_plus :: "int option \<Rightarrow> int option \<Rightarrow> int option" where
  "js_plus a b = (case (a, b) of (Some x, Some y) \<Rightarrow> Some (x + y) | _ \<Rightarrow> None)"

definition js_minus :: "int option \<Rightarrow> int option \<Rightarrow> int option" where
  "js_minus a b = (case (a, b) of (Some x, Some y) \<Rightarrow> Some (x - y) | _ \<Rightarrow> None)"

text \<open>\<open>a > b\<close> on such values: a comparison with \<open>NaN\<close> or an absent field is false.\<close>

definition js_greater :: "int option \<Rightarrow> int option \<Rightarrow> bool" where
  "js_greater a b = (case (a, b) of (Some x, Some y) \<Rightarrow> x > y | _ \<Rightarrow> False)"

text \<open>A sale in the store: the fields of a sale, with the addresses of its lines.\<close>

record sale_obj =
  so_id :: string
  so_date :: string
  so_time :: string
  so_customer :: customer_details
  so_channelId :: string
  so_items :: "addr list"
  so_subtotal :: rat
  so_discountType :: string
  so_discountValue :: "rat option"
  so_discountAmount :: rat
  so_grandTotal :: rat
  so_paymentMethod :: string
  so_paymentRef :: string
  so_chequeDetails :: "cheque_details option"

text \<open>
  The store: the objects (an address is an index), the arrays \<open>posData.inventory\<close>,
  \<open>currentCart\<close> and \<open>posData.sales\<close>, and the id and the object that the submit handler
  installed by \<open>editInventoryItem\<close> has captured, while one is installed.
\<close>

record store =
  st_heap :: "obj list"
  st_inventory :: "addr list"
  st_cart :: "addr list"
  st_sales :: "sale_obj list"
  st_editing :: "(string \<times> addr) option"

definition item_obj :: "inventory_item \<Rightarrow> obj" where
  "item_obj i =
     \<lparr>o_id = item_id i, o_code = item_code i, o_name = item_name i,
      o_description = item_description i, o_price = item_price i,
      o_stock = Some (item_stock i), o_threshold = Some (item_threshold i), o_qty = None\<rparr>"

definition line_obj :: "cart_line \<Rightarrow> obj" where
  "line_obj l =
     \<lparr>o_id = line_id l, o_code = line_code l, o_name = line_name l,
      o_description = line_description l, o_price = line_price l,
      o_stock = line_stock l, o_threshold = line_threshold l, o_qty = Some (line_qty l)\<rparr>"

text \<open>
  What a sale of the store looks like from outside: each line read through its address.
  (The quantity of a line is an integer in every sale that the program writes; 0 stands in
  for a quantity that is not.)
\<close>

definition line_of :: "obj \<Rightarrow> cart_line" where
  "line_of x =
     \<lparr>line_id = o_id x, line_code = o_code x, line_name = o_name x,
      line_description = o_description x, line_price = o_price x,
      line_stock = o_stock x, line_threshold = o_threshold x,
      line_qty = (case o_qty x of Some q \<Rightarrow> q | None \<Rightarrow> 0)\<rparr>"

definition sale_view :: "obj list \<Rightarrow> sale_obj \<Rightarrow> sale" where
  "sale_view h s =
     \<lparr>sale_id = so_id s, sale_date = so_date s, sale_time = so_time s,
      sale_customer = so_customer s, sale_channelId = so_channelId s,
      sale_items = map (\<lambda>a. line_of (h ! a)) (so_items s),
      sale_subtotal = so_subtotal s, sale_discountType = so_discountType s,
      sale_discountValue = so_discountValue s, sale_discountAmount = so_discountAmount s,
      sale_grandTotal = so_grandTotal s, sale_paymentMethod = so_paymentMethod s,
      sale_paymentRef = so_paymentRef s, sale_chequeDetails = so_chequeDetails s\<rparr>"

definition sales_view :: "store \<Rightarrow> sale list" where
  "sales_view st = map (sale_view (st_heap st)) (st_sales st)"

subsection \<open>Loading\<close>

text \<open>
  \<open>JSON.parse\<close> builds every object anew: the inventory items first, then the lines of
  each sale.
\<close>

fun load_sales :: "sale list \<Rightarrow> obj list \<Rightarrow> sale_obj list \<times> obj list" where
  "load_sales [] h = ([], h)"
| "load_sales (s # ss) h =
     (let refs = [length h ..< length h + length (sale_items s)];
          (rest, h') = load_sales ss (h @ map line_obj (sale_items s))
      in (\<lparr>so_id = sale_id s, so_date = sale_date s, so_time = sale_time s,
           so_customer = sale_customer s, so_channelId = sale_channelId s,
           so_items = refs,
           so_subtotal = sale_subtotal s, so_discountType = sale_discountType s,
           so_discountValue = sale_discountValue s,
           so_discountAmount = sale_discountAmount s, so_grandTotal = sale_grandTotal s,
           so_paymentMethod = sale_paymentMethod s, so_paymentRef = sale_paymentRef s,
           so_chequeDetails = sale_chequeDetails s\<rparr> # rest, h'))"

definition h_load :: "pos_data \<Rightarrow> store" where
  "h_load pd =
     (let h0 = map item_obj (inventory pd);
          (ss, h) = load_sales (sales pd) h0
      in \<lparr>st_heap = h, st_inventory = [0 ..< length h0], st_cart = [], st_sales = ss,
          st_editing = None\<rparr>)"

subsection \<open>Inventory\<close>

definition h_find :: "obj list \<Rightarrow> (obj \<Rightarrow> bool) \<Rightarrow> addr list \<Rightarrow> addr option" where
  "h_find h p arr = find (\<lambda>a. p (h ! a)) arr"

definition h_addInventoryItem :: "string \<Rightarrow> item_form \<Rightarrow> store \<Rightarrow> error + store" where
  "h_addInventoryItem newId f st =
     (case valid_numbers f of
        None \<Rightarrow> Inl InvalidNumbers
      | Some (price, stock, threshold) \<Rightarrow>
          (case h_find (st_heap st) (\<lambda>item. o_code item = trim (itemCodeInput f))
                  (st_inventory st) of
             Some _ \<Rightarrow> Inl DuplicateCode
           | None \<Rightarrow>
               Inr (st\<lparr>st_heap := st_heap st @
                         [\<lparr>o_id = newId, o_code = trim (itemCodeInput f),
                           o_name = trim (itemNameInput f),
                           o_description = trim (itemDescriptionInput f),
                           o_price = price, o_stock = Some stock,
                           o_threshold = Some threshold, o_qty = None\<rparr>],
                       st_inventory := st_inventory st @ [length (st_heap st)]\<rparr>)))"

text \<open>
  \<open>editInventoryItem(id)\<close> captures the object that \<open>find\<close> returns; the submit handler
  it installs writes the form into that object, wherever the object is by then, and
  uninstalls itself after a successful update.
\<close>

definition h_editInventoryItem :: "string \<Rightarrow> store \<Rightarrow> error + store" where
  "h_editInventoryItem iid st =
     (case h_find (st_heap st) (\<lambda>i. o_id i = iid) (st_inventory st) of
        None \<Rightarrow> Inl ItemNotFound
      | Some item \<Rightarrow> Inr (st\<lparr>st_editing := Some (iid, item)\<rparr>))"

definition h_editSubmit :: "item_form \<Rightarrow> store \<Rightarrow> error + store" where
  "h_editSubmit f st =
     (case st_editing st of
        None \<Rightarrow> Inr st
      | Some (iid, item) \<Rightarrow>
          (case valid_numbers f of
             None \<Rightarrow> Inl InvalidNumbers
           | Some (updatedPrice, updatedStock, updatedThreshold) \<Rightarrow>
               let h = st_heap st; updatedCode = trim (itemCodeInput f) in
               if updatedCode \<noteq> o_code (h ! item) \<and>
                  list_ex (\<lambda>i. o_code (h ! i) = updatedCode \<and> o_id (h ! i) \<noteq> iid)
                    (st_inventory st)
               then Inl DuplicateCode
               else Inr (st\<lparr>st_heap := h[item := (h ! item)\<lparr>
                              o_code := updatedCode,
                              o_name := trim (itemNameInput f),
                              o_description := trim (itemDescriptionInput f),
                              o_price := updatedPrice,
                              o_stock := Some updatedStock,
                              o_threshold := Some updatedThreshold\<rparr>],
                            st_editing := None\<rparr>)))"

definition h_deleteInventoryItem :: "string \<Rightarrow> store \<Rightarrow> store" where
  "h_deleteInventoryItem iid st =
     st\<lparr>st_inventory := filter (\<lambda>item. o_id (st_heap st ! item) \<noteq> iid) (st_inventory st)\<rparr>"

subsection \<open>Cart\<close>

text \<open>
  \<open>addItemToCart(item, quantity)\<close> reads its argument and spreads it into a new object;
  the argument is the content of the object passed.
\<close>

definition h_exceeds_stock :: "obj list \<Rightarrow> addr option \<Rightarrow> int option \<Rightarrow> bool" where
  "h_exceeds_stock h inventoryItem q =
     (case inventoryItem of None \<Rightarrow> False | Some i \<Rightarrow> js_greater q (o_stock (h ! i)))"

definition h_addItemToCart :: "obj \<Rightarrow> int \<Rightarrow> store \<Rightarrow> error + store" where
  "h_addItemToCart item quantity st =
     (let h = st_heap st;
          inventoryItem = h_find h (\<lambda>i. o_id i = o_id item) (st_inventory st) in
      case h_find h (\<lambda>cartItem. o_id cartItem = o_id item) (st_cart st) of
        Some existing \<Rightarrow>
          let updatedQty = js_plus (o_qty (h ! existing)) (Some quantity) in
          if h_exceeds_stock h inventoryItem updatedQty then Inl NotEnoughStock
          else Inr (st\<lparr>st_heap := h[existing := (h ! existing)\<lparr>o_qty := updatedQty\<rparr>]\<rparr>)
      | None \<Rightarrow>
          if h_exceeds_stock h inventoryItem (Some quantity) then Inl NotEnoughStock
          else Inr (st\<lparr>st_heap := h @ [item\<lparr>o_qty := Some quantity\<rparr>],
                       st_cart := st_cart st @ [length h]\<rparr>))"

definition h_updateCartItemQuantity :: "string \<Rightarrow> int \<Rightarrow> store \<Rightarrow> store" where
  "h_updateCartItemQuantity itemId newQty st =
     (let h = st_heap st in
      case findIndex (\<lambda>item. o_id (h ! item) = itemId) (st_cart st) of
        None \<Rightarrow> st
      | Some cartItemIndex \<Rightarrow>
          let line = st_cart st ! cartItemIndex;
              inventoryItem = h_find h (\<lambda>i. o_id i = itemId) (st_inventory st)
          in
          if h_exceeds_stock h inventoryItem (Some newQty)
          then (case inventoryItem of
                  Some i \<Rightarrow> st\<lparr>st_heap := h[line := (h ! line)\<lparr>o_qty := o_stock (h ! i)\<rparr>]\<rparr>
                | None \<Rightarrow> st)
          else if newQty \<le> 0
          then st\<lparr>st_cart := splice1 cartItemIndex (st_cart st)\<rparr>
          else st\<lparr>st_heap := h[line := (h ! line)\<lparr>o_qty := Some newQty\<rparr>]\<rparr>)"

definition h_removeCartItem :: "string \<Rightarrow> store \<Rightarrow> store" where
  "h_removeCartItem itemId st =
     st\<lparr>st_cart := filter (\<lambda>item. o_id (st_heap st ! item) \<noteq> itemId) (st_cart st)\<rparr>"

subsection \<open>Processing a bill and receiving stock\<close>

text \<open>
  The stock loops write through the address that \<open>find\<close> returns in the inventory.
\<close>

definition h_sellStock :: "addr list \<Rightarrow> addr list \<Rightarrow> obj list \<Rightarrow> obj list" where
  "h_sellStock cart inventory0 h0 =
     foldl (\<lambda>h cartItem.
              case h_find h (\<lambda>i. o_id i = o_id (h ! cartItem)) inventory0 of
                None \<Rightarrow> h
              | Some inventoryItem \<Rightarrow>
                  h[inventoryItem := (h ! inventoryItem)\<lparr>o_stock :=
                      js_minus (o_stock (h ! inventoryItem)) (o_qty (h ! cartItem))\<rparr>])
       h0 cart"

definition h_receiveStock :: "grn_line list \<Rightarrow> addr list \<Rightarrow> obj list \<Rightarrow> obj list" where
  "h_receiveStock lines inventory0 h0 =
     foldl (\<lambda>h grnItem.
              case h_find h (\<lambda>item. o_id item = gl_id grnItem) inventory0 of
                None \<Rightarrow> h
              | Some inventoryItem \<Rightarrow>
                  h[inventoryItem := (h ! inventoryItem)\<lparr>o_stock :=
                      js_plus (o_stock (h ! inventoryItem)) (Some (gl_qty grnItem))\<rparr>])
       h0 lines"

text \<open>
  The handler of \<open>processBillBtn\<close> on the store. Its tests are those of \<open>processBill\<close>;
  the customers are an argument. The sale gets a copy of every cart line, made before the
  stock loop runs; \<open>resetBillingForm\<close> then gives \<open>currentCart\<close> a new empty array.
\<close>

definition h_processBill :: "bill_env \<Rightarrow> billing_form \<Rightarrow> customer list \<Rightarrow> store \<Rightarrow> error + store" where
  "h_processBill e f cs st =
     (if st_cart st = [] then Inl CartEmpty
      else
        let grandTotal = cartGrandtotalSpan f in
        case resolveCustomer e f cs of
          Inl err \<Rightarrow> Inl err
        | Inr (customerDetails, selectedCustomer) \<Rightarrow>
           (case creditCheck f selectedCustomer grandTotal of
              Some err \<Rightarrow> Inl err
            | None \<Rightarrow>
               (case readChequeDetails f of
                  Inl err \<Rightarrow> Inl err
                | Inr chequeDetails \<Rightarrow>
                   let h = st_heap st;
                       copies = map (\<lambda>a. h ! a) (st_cart st);
                       newSale =
                         \<lparr>so_id = ''BILL-'' @ benv_stamp e, so_date = benv_date e,
                          so_time = benv_time e, so_customer = customerDetails,
                          so_channelId = distributionChannelDropdown f,
                          so_items = [length h ..< length h + length copies],
                          so_subtotal = cartSubtotalSpan f,
                          so_discountType = discountTypeSelect f,
                          so_discountValue = discountValueInput f,
                          so_discountAmount = cartSubtotalSpan f - grandTotal,
                          so_grandTotal = grandTotal,
                          so_paymentMethod = paymentMethodSelect f,
                          so_paymentRef = trim (paymentReferenceInput f),
                          so_chequeDetails = chequeDetails\<rparr>
                   in Inr (st\<lparr>st_heap := h_sellStock (st_cart st) (st_inventory st) (h @ copies),
                              st_sales := st_sales st @ [newSale],
                              st_cart := []\<rparr>))))"

text \<open>
  The submit handler of the GRN form on the store. The GRN record that it appends is a
  value of the document and is left out of the store, like the customers, the payments,
  the credit bills and the cheques that \<open>processBill\<close> writes.
\<close>

definition h_createGrn :: "grn_form \<Rightarrow> grn_line list \<Rightarrow> store \<Rightarrow> error + store" where
  "h_createGrn f currentGrnItems st =
     (if trim (grnSupplierInput f) = [] \<or> grnDateInput f = [] \<or> currentGrnItems = []
      then Inl GrnIncomplete
      else Inr (st\<lparr>st_heap := h_receiveStock currentGrnItems (st_inventory st) (st_heap st)\<rparr>))"

subsection \<open>Reachable stores\<close>

text \<open>
  The addresses that the sales hold, the addresses that the handlers can write through,
  and the stores that the operations produce from a loaded document.
\<close>

definition sale_refs :: "store \<Rightarrow> addr set" where
  "sale_refs st = (\<Union>s\<in>set (st_sales st). set (so_items s))"

definition live_refs :: "store \<Rightarrow> addr set" where
  "live_refs st =
     set (st_inventory st) \<union> set (st_cart st) \<union>
     (case st_editing st of None \<Rightarrow> {} | Some (iid, item) \<Rightarrow> {item})"

definition separated :: "store \<Rightarrow> bool" where
  "separated st =
     ((\<forall>a\<in>sale_refs st \<union> live_refs st. a < length (st_heap st))
      \<and> sale_refs st \<inter> live_refs st = {})"

inductive store_reachable :: "store \<Rightarrow> bool" where
  r_load: "store_reachable (h_load pd)"
| r_addItem: "store_reachable st \<Longrightarrow> h_addInventoryItem newId f st = Inr st' \<Longrightarrow>
              store_reachable st'"
| r_edit: "store_reachable st \<Longrightarrow> h_editInventoryItem iid st = Inr st' \<Longrightarrow>
           store_reachable st'"
| r_editSubmit: "store_reachable st \<Longrightarrow> h_editSubmit f st = Inr st' \<Longrightarrow>
                 store_reachable st'"
| r_delete: "store_reachable st \<Longrightarrow> store_reachable (h_deleteInventoryItem iid st)"
| r_addToCart: "store_reachable st \<Longrightarrow> h_addItemToCart item quantity st = Inr st' \<Longrightarrow>
                store_reachable st'"
| r_updateQty: "store_reachable st \<Longrightarrow>
                store_reachable (h_updateCartItemQuantity itemId newQty st)"
| r_removeLine: "store_reachable st \<Longrightarrow> store_reachable (h_removeCartItem itemId st)"
| r_processBill: "store_reachable st \<Longrightarrow> h_processBill e bf cs st = Inr st' \<Longrightarrow>
                  store_reachable st'"
| r_createGrn: "store_reachable st \<Longrightarrow> h_createGrn gf ls st = Inr st' \<Longrightarrow>
                store_reachable st'"

section \<open>Example documents\<close>

text \<open>Concrete states on which the theorems below are instantiated.\<close>

definition cheque1 :: cheque where
  "cheque1 =
     \<lparr>cheque_id = ''c1'', cheque_billId = ''BILL-1'', cheque_chequeNumber = ''000123'',
      cheque_bank = ''BOC'', cheque_amount = 290, cheque_dueDate = ''2025-12-01'',
      cheque_status = ''Pending''\<rparr>"

definition cheque2 :: cheque where
  "cheque2 = cheque1\<lparr>cheque_id := ''c2'', cheque_chequeNumber := ''000124'',
                      cheque_status := ''Claimed''\<rparr>"

definition chequeDoc :: pos_data where
  "chequeDoc = defaultPOSData\<lparr>cheques := [cheque1, cheque2]\<rparr>"

definition customer1 :: customer where
  "customer1 =
     \<lparr>cust_id = ''cust-1'', cust_name = ''Nimal'', cust_address = ''Galle Road'',
      cust_tp = ''071-0000000'', cust_creditLimit = 1000, cust_outstandingCredit = 100\<rparr>"

definition customer2 :: customer where
  "customer2 = customer1\<lparr>cust_id := ''cust-2'', cust_name := ''Kamala'',
                          cust_outstandingCredit := 800\<rparr>"

definition payment1 :: payment where
  "payment1 =
     \<lparr>pay_id = ''pay-1'', pay_date = ''2025-11-01'', pay_billId = ''BILL-1'', pay_amount = 150,
      pay_method = ''credit'', pay_reference = [], pay_chequeDetails = None\<rparr>"

definition creditBill1 :: credit_bill where
  "creditBill1 =
     \<lparr>cb_id = ''cb-1'', cb_billId = ''BILL-1'', cb_customerId = ''cust-1'',
      cb_totalAmount = 150, cb_paidAmount = 0, cb_dueAmount = 150,
      cb_billDate = ''2025-11-01'', cb_dueDate = [], cb_paymentHistory = []\<rparr>"

definition creditBill2 :: credit_bill where
  "creditBill2 = creditBill1\<lparr>cb_id := ''cb-2'', cb_billId := ''BILL-2'',
                              cb_customerId := ''cust-2'', cb_totalAmount := 500,
                              cb_dueAmount := 500\<rparr>"

definition sale1 :: sale where
  "sale1 =
     \<lparr>sale_id = ''BILL-1'', sale_date = ''2025-11-01'', sale_time = ''10:00:00'',
      sale_customer = \<lparr>cd_type = ''registered'', cd_id = ''cust-1'', cd_name = ''Nimal'',
                        cd_address = ''Galle Road'', cd_tp = ''071-0000000''\<rparr>,
      sale_channelId = ''main'',
      sale_items = [\<lparr>line_id = ''item-1'', line_code = ''SKU1'', line_name = ''Soap'',
                     line_description = [], line_price = 50, line_stock = Some 10,
                     line_threshold = Some 0, line_qty = 3\<rparr>],
      sale_subtotal = 150, sale_discountType = ''lkr'', sale_discountValue = Some 0,
      sale_discountAmount = 0, sale_grandTotal = 150, sale_paymentMethod = ''credit'',
      sale_paymentRef = [], sale_chequeDetails = None\<rparr>"

definition creditDoc :: pos_data where
  "creditDoc =
     defaultPOSData\<lparr>customers := [customer1, customer2], sales := [sale1],
                     payments := [payment1], creditBills := [creditBill1, creditBill2]\<rparr>"

definition emptyDoc :: stored_doc where
  "emptyDoc =
     \<lparr>doc_shop = None, doc_inventory = None, doc_customers = None,
      doc_distributionChannels = None, doc_sales = None, doc_grns = None,
      doc_quotations = None, doc_payments = None, doc_creditBills = None,
      doc_cheques = None\<rparr>"

definition noChannelsDoc :: stored_doc where
  "noChannelsDoc = emptyDoc\<lparr>doc_distributionChannels := Some []\<rparr>"

definition branchForm :: channel_form where
  "branchForm =
     \<lparr>distChannelNameInput = '' Kandy Branch '', distChannelRegNoInput = ''PV-77'',
      distChannelAddressInput = ''Peradeniya Road, Kandy'',
      distChannelHotlineInput = ''081-2222222'', distChannelReceiptLogoUpload = NoFile,
      distChannelReceiptLogoLink = []\<rparr>"

definition branchDoc :: pos_data where
  "branchDoc =
     defaultPOSData\<lparr>distributionChannels :=
       [mainChannel,
        \<lparr>chan_id = ''7c9e6679-7425-40de-944b-e07fc1f90ae7'', chan_name = ''Kandy Branch'',
         chan_regNo = ''PV-77'', chan_address = ''Peradeniya Road, Kandy'',
         chan_hotline = ''081-2222222'', chan_receiptLogo = placeholderLogo\<rparr>]\<rparr>"

definition item1 :: inventory_item where
  "item1 =
     \<lparr>item_id = ''item-1'', item_code = ''SKU1'', item_name = ''Soap'', item_description = [],
      item_price = 100, item_stock = 10, item_threshold = 2\<rparr>"

definition item2 :: inventory_item where
  "item2 = item1\<lparr>item_id := ''item-2'', item_code := ''SKU2'', item_name := ''Rice 1kg'',
                  item_price := 333 / 100, item_stock := 5\<rparr>"




definition installmentEnv1 :: installment_env where
  "installmentEnv1 =
     \<lparr>ienv_paymentId = ''pay-2'', ienv_chequeId = ''chq-2'', ienv_date = ''2025-11-03''\<rparr>"

definition installmentForm1 :: installment_form where
  "installmentForm1 =
     \<lparr>installmentAmountInput = Some 150, installmentMethodSelect = ''cash'',
      installmentReferenceInput = [], installmentChequeNumberInput = [],
      installmentChequeBankInput = [], installmentChequeDueDateInput = []\<rparr>"

definition installmentRecord1 :: payment where
  "installmentRecord1 =
     \<lparr>pay_id = ''pay-2'', pay_date = ''2025-11-03'', pay_billId = ''BILL-1'', pay_amount = 150,
      pay_method = ''cash'', pay_reference = [], pay_chequeDetails = None\<rparr>"

definition shopDoc :: pos_data where
  "shopDoc = defaultPOSData\<lparr>inventory := [item1, item2], customers := [customer1, customer2]\<rparr>"

definition blankForm :: billing_form where
  "blankForm =
     \<lparr>customerTypeSelect = ''walking'', walkingCustomerNameInput = [],
      walkingCustomerAddressInput = [], walkingCustomerTpInput = [],
      registeredCustomerDropdown = [], distributionChannelDropdown = ''main'',
      cartSubtotalSpan = 0, discountTypeSelect = ''lkr'', discountValueInput = Some 0,
      cartGrandtotalSpan = 0, paymentMethodSelect = ''cash'', paymentReferenceInput = [],
      chequeNumberInput = [], chequeBankInput = [], chequeDueDateInput = []\<rparr>"


definition billEnv1 :: bill_env where
  "billEnv1 =
     \<lparr>benv_stamp = ''1762100000000'', benv_date = ''2025-11-03'', benv_time = ''09:30:00'',
      benv_walkingId = ''walk-1'', benv_paymentId = ''pay-9'', benv_creditBillId = ''cb-9'',
      benv_chequeId = ''chq-9''\<rparr>"

text \<open>
  Three units of the first item in the cart and a flat discount of 10 typed into the
  discount input, which fires \<open>calculateGrandTotal()\<close>.
\<close>

definition soapLine :: cart_line where
  "soapLine = cart_item.extend (spread_item item1) \<lparr>line_qty = 3\<rparr>"

definition soapApp :: app where
  "soapApp =
     \<lparr>posData = shopDoc, currentCart = [soapLine],
      billing = blankForm\<lparr>cartSubtotalSpan := 300, discountValueInput := Some 10,
                           cartGrandtotalSpan := 290\<rparr>\<rparr>"









text \<open>
  A store in which three units of the first item have been sold and the item is then
  opened for editing, and a form that changes its price and stock.
\<close>

definition cartStore :: store where
  "cartStore = projr (h_addItemToCart (item_obj item1) 3 (h_load shopDoc))"

definition soldStore :: store where
  "soldStore = projr (h_processBill billEnv1 (billing soapApp) (customers shopDoc) cartStore)"

definition editingStore :: store where
  "editingStore = projr (h_editInventoryItem ''item-1'' soldStore)"

definition priceForm :: item_form where
  "priceForm =
     \<lparr>itemCodeInput = ''SKU1'', itemNameInput = ''Soap bar'', itemDescriptionInput = [],
      itemPriceInput = Some 999, itemStockInput = Some 2, itemthresholdInput = Some 2\<rparr>"

section \<open>Facts about the array helpers\<close>

lemma findIndex_Some_iff:
  "findIndex p xs = Some k \<longleftrightarrow> k < length xs \<and> p (xs ! k) \<and> (\<forall>j<k. \<not> p (xs ! j))"
proof (induction xs arbitrary: k)
  case Nil
  then show ?case by simp
next
  case (Cons x xs)
  show ?case
  proof (cases "p x")
    case True
    then show ?thesis by (cases k) auto
  next
    case False
    show ?thesis
    proof (cases k)
      case 0
      with False show ?thesis by auto
    next
      case (Suc n)
      have "(\<forall>j<Suc n. \<not> p ((x # xs) ! j)) \<longleftrightarrow> (\<forall>j<n. \<not> p (xs ! j))"
        using False by (auto simp: less_Suc_eq_0_disj)
      with False Suc Cons.IH[of n] show ?thesis by auto
    qed
  qed
qed

lemma findIndex_None_iff: "findIndex p xs = None \<longleftrightarrow> (\<forall>x\<in>set xs. \<not> p x)"
  by (induction xs) auto

lemma find_findIndex: "find p xs = map_option (\<lambda>k. xs ! k) (findIndex p xs)"
  by (induction xs) (auto simp: option.map_comp comp_def)

lemma update_first_findIndex:
  "update_first p f xs = (case findIndex p xs of None \<Rightarrow> xs | Some k \<Rightarrow> xs[k := f (xs ! k)])"
  by (induction xs) (auto split: option.splits)

lemma update_first_length [simp]: "length (update_first p f xs) = length xs"
  by (induction xs) auto

text \<open>
  A search by a key gives the same index in two arrays that carry the same keys.
\<close>

lemma findIndex_cong_map:
  assumes "map g xs = map g ys" and "\<And>x. p x = q (g x)"
  shows "findIndex p xs = findIndex p ys"
  using assms(1)
proof (induction xs arbitrary: ys)
  case Nil
  then show ?case by simp
next
  case (Cons x xs)
  then obtain y ys' where ys: "ys = y # ys'" "g x = g y" "map g xs = map g ys'" by auto
  with Cons.IH[of ys'] assms(2) show ?case by simp
qed

section \<open>Cheque status\<close>

text \<open>
  Claim C8. Whenever a cheque with the given id exists (\<open>k\<close> is the index that
  \<open>findIndex\<close> returns for it), \<open>updateChequeStatus\<close> succeeds for every new status and
  whatever the current status is; the new document differs from the old one only in the
  cheques array, which differs only at index \<open>k\<close>, where only the status field is
  replaced; and applying the same update again returns the same document.
\<close>

theorem updateChequeStatus_unconstrained_idempotent:
  assumes "findIndex (\<lambda>c. cheque_id c = cid) (cheques pd) = Some k"
  shows "\<exists>pd'. updateChequeStatus cid s pd = Inr pd'
           \<and> cheques pd' = (cheques pd)[k := (cheques pd ! k)\<lparr>cheque_status := s\<rparr>]
           \<and> pd' = pd\<lparr>cheques := cheques pd'\<rparr>
           \<and> updateChequeStatus cid s pd' = Inr pd'"
proof -
  let ?cs = "cheques pd"
  let ?cs' = "?cs[k := (?cs ! k)\<lparr>cheque_status := s\<rparr>]"
  have kl: "k < length ?cs" using assms by (simp add: findIndex_Some_iff)
  then have "map cheque_id ?cs' = map cheque_id ?cs"
    by (simp add: map_update list_update_same_conv)
  then have "findIndex (\<lambda>c. cheque_id c = cid) ?cs' = Some k"
    using findIndex_cong_map[of cheque_id ?cs' ?cs "\<lambda>c. cheque_id c = cid" "\<lambda>i. i = cid"] assms
    by simp
  then show ?thesis using assms kl
    by (simp add: updateChequeStatus_def)
qed

theorem updateChequeStatus_unconstrained_idempotent_witness:
  "findIndex (\<lambda>c. cheque_id c = ''c2'') (cheques chequeDoc) = Some 1
   \<and> (\<exists>pd'. updateChequeStatus ''c2'' ''Pending'' chequeDoc = Inr pd'
         \<and> cheques pd' = [cheque1, cheque2\<lparr>cheque_status := ''Pending''\<rparr>]
         \<and> pd' = chequeDoc\<lparr>cheques := cheques pd'\<rparr>
         \<and> updateChequeStatus ''c2'' ''Pending'' pd' = Inr pd')"
proof -
  have h: "findIndex (\<lambda>c. cheque_id c = ''c2'') (cheques chequeDoc) = Some 1"
    by (simp add: chequeDoc_def cheque1_def cheque2_def)
  have c: "(cheques chequeDoc)[1 := (cheques chequeDoc ! 1)\<lparr>cheque_status := ''Pending''\<rparr>]
           = [cheque1, cheque2\<lparr>cheque_status := ''Pending''\<rparr>]"
    by (simp add: chequeDoc_def)
  from updateChequeStatus_unconstrained_idempotent [OF h, of "''Pending''"] h c
  show ?thesis by simp
qed

section \<open>Deleting a credit bill\<close>

lemma filter_neq_remove1:
  assumes "distinct (map f xs)" and "find (\<lambda>x. f x = a) xs = Some b"
  shows "filter (\<lambda>x. f x \<noteq> a) xs = remove1 b xs"
  using assms
proof (induction xs)
  case Nil
  then show ?case by simp
next
  case (Cons x xs)
  show ?case
  proof (cases "f x = a")
    case True
    with Cons.prems have "b = x" by simp
    moreover from True Cons.prems(1) have "\<forall>y\<in>set xs. f y \<noteq> a"
      by (metis distinct.simps(2) image_eqI list.simps(9) set_map)
    ultimately have "b = x" and "\<forall>y\<in>set xs. f y \<noteq> a" by simp_all
    then show ?thesis using True by (simp add: filter_id_conv)
  next
    case False
    with Cons.prems have "find (\<lambda>x. f x = a) xs = Some b" and "distinct (map f xs)" by auto
    moreover from this have "f b = a" by (auto simp: find_Some_iff)
    ultimately show ?thesis using False Cons.IH by auto
  qed
qed

text \<open>
  Claim C5. Let \<open>b\<close> be the credit bill that \<open>deleteCreditBill\<close> finds for the id, in a
  document whose credit bills have pairwise different ids. Then the sales and the payments
  are unchanged; the credit bills are the old ones without \<open>b\<close>; the customers are the
  old ones, except that the first customer with the bill's \<open>customerId\<close>, when there is
  one, has its outstanding credit reduced by the bill's due amount and floored at 0; and
  nothing else in the document changes.
\<close>

theorem deleteCreditBill_effects:
  assumes "find (\<lambda>b. cb_id b = bid) (creditBills pd) = Some b"
      and "distinct (map cb_id (creditBills pd))"
  shows "sales (deleteCreditBill bid pd) = sales pd
       \<and> payments (deleteCreditBill bid pd) = payments pd
       \<and> creditBills (deleteCreditBill bid pd) = remove1 b (creditBills pd)
       \<and> customers (deleteCreditBill bid pd) =
           (case findIndex (\<lambda>c. cust_id c = cb_customerId b) (customers pd) of
              None \<Rightarrow> customers pd
            | Some k \<Rightarrow> (customers pd)[k := (customers pd ! k)\<lparr>cust_outstandingCredit :=
                            max 0 (cust_outstandingCredit (customers pd ! k) - cb_dueAmount b)\<rparr>])
       \<and> deleteCreditBill bid pd =
           pd\<lparr>customers := customers (deleteCreditBill bid pd),
              creditBills := creditBills (deleteCreditBill bid pd)\<rparr>"
proof -
  have f: "(\<lambda>c::customer. let c1 = c\<lparr>cust_outstandingCredit := cust_outstandingCredit c - d\<rparr>
             in if cust_outstandingCredit c1 < 0 then c1\<lparr>cust_outstandingCredit := 0\<rparr> else c1)
         = (\<lambda>c. c\<lparr>cust_outstandingCredit := max 0 (cust_outstandingCredit c - d)\<rparr>)" for d
    by (auto simp: Let_def max_def fun_eq_iff)
  show ?thesis
    using assms filter_neq_remove1[OF assms(2) assms(1)]
    unfolding deleteCreditBill_def f
    by (simp add: update_first_findIndex)
qed

theorem deleteCreditBill_effects_witness:
  "find (\<lambda>b. cb_id b = ''cb-1'') (creditBills creditDoc) = Some creditBill1
   \<and> distinct (map cb_id (creditBills creditDoc))
   \<and> sales (deleteCreditBill ''cb-1'' creditDoc) = [sale1]
   \<and> payments (deleteCreditBill ''cb-1'' creditDoc) = [payment1]
   \<and> creditBills (deleteCreditBill ''cb-1'' creditDoc) = [creditBill2]
   \<and> customers (deleteCreditBill ''cb-1'' creditDoc) =
       [customer1\<lparr>cust_outstandingCredit := 0\<rparr>, customer2]"
proof -
  have h1: "find (\<lambda>b. cb_id b = ''cb-1'') (creditBills creditDoc) = Some creditBill1"
    by (simp add: creditDoc_def creditBill1_def)
  have h2: "distinct (map cb_id (creditBills creditDoc))"
    by (simp add: creditDoc_def creditBill1_def creditBill2_def)
  have k: "findIndex (\<lambda>c. cust_id c = cb_customerId creditBill1) (customers creditDoc) = Some 0"
    by (simp add: creditDoc_def creditBill1_def customer1_def)
  have v: "sales creditDoc = [sale1]" "payments creditDoc = [payment1]"
    "remove1 creditBill1 (creditBills creditDoc) = [creditBill2]"
    "customers creditDoc = [customer1, customer2]"
    "max 0 (cust_outstandingCredit customer1 - cb_dueAmount creditBill1) = 0"
    by (simp_all add: creditDoc_def creditBill1_def customer1_def)
  from deleteCreditBill_effects [OF h1 h2] h1 h2 k v show ?thesis by simp
qed

section \<open>Loading\<close>

text \<open>
  Claim C6, as stated, at the empty document: the claim lists \<open>distributionChannels\<close>
  among the collections that an absent key fills with the empty list, and the loader
  fills it with the default channel list instead.
\<close>

theorem loadPOSData_channels_not_empty:
  "doc_distributionChannels emptyDoc = None
   \<and> distributionChannels (loadPOSData (Parsed emptyDoc)) \<noteq> []"
  by (simp add: emptyDoc_def loadPOSData_def or_else_def defaultPOSData_def)

text \<open>
  Claim C6, amended. Without a stored document, or with one that does not parse, the
  loader returns the default document. For a stored document, each of \<open>inventory\<close>,
  \<open>customers\<close>, \<open>sales\<close>, \<open>grns\<close>, \<open>quotations\<close>, \<open>payments\<close>, \<open>creditBills\<close> and
  \<open>cheques\<close> is the stored list, or the empty list when the key is absent;
  \<open>distributionChannels\<close> is the stored list, or the list that holds the default main
  channel when the key is absent; and every inventory item keeps its stored fields and
  gets the threshold 0 when it has none.
\<close>

theorem loadPOSData_fills_absent:
  "loadPOSData NoItem = defaultPOSData
   \<and> loadPOSData Unparsable = defaultPOSData
   \<and> inventory (loadPOSData (Parsed d)) =
       map migrate_item (case doc_inventory d of None \<Rightarrow> [] | Some xs \<Rightarrow> xs)
   \<and> customers (loadPOSData (Parsed d)) = (case doc_customers d of None \<Rightarrow> [] | Some xs \<Rightarrow> xs)
   \<and> distributionChannels (loadPOSData (Parsed d)) =
       (case doc_distributionChannels d of None \<Rightarrow> [mainChannel] | Some xs \<Rightarrow> xs)
   \<and> sales (loadPOSData (Parsed d)) = (case doc_sales d of None \<Rightarrow> [] | Some xs \<Rightarrow> xs)
   \<and> grns (loadPOSData (Parsed d)) = (case doc_grns d of None \<Rightarrow> [] | Some xs \<Rightarrow> xs)
   \<and> quotations (loadPOSData (Parsed d)) = (case doc_quotations d of None \<Rightarrow> [] | Some xs \<Rightarrow> xs)
   \<and> payments (loadPOSData (Parsed d)) = (case doc_payments d of None \<Rightarrow> [] | Some xs \<Rightarrow> xs)
   \<and> creditBills (loadPOSData (Parsed d)) = (case doc_creditBills d of None \<Rightarrow> [] | Some xs \<Rightarrow> xs)
   \<and> cheques (loadPOSData (Parsed d)) = (case doc_cheques d of None \<Rightarrow> [] | Some xs \<Rightarrow> xs)
   \<and> item_threshold (migrate_item i) = (case si_threshold i of None \<Rightarrow> 0 | Some t \<Rightarrow> t)
   \<and> migrate_item i =
       \<lparr>item_id = si_id i, item_code = si_code i, item_name = si_name i,
        item_description = si_description i, item_price = si_price i,
        item_stock = si_stock i, item_threshold = item_threshold (migrate_item i)\<rparr>"
  by (simp add: loadPOSData_def or_else_def defaultPOSData_def migrate_item_def
           split: option.splits)

section \<open>The main channel\<close>

lemma mainCount_load: "one_main_stored st \<Longrightarrow> mainCount (loadPOSData st) = 1"
  by (auto simp: one_main_stored_def mainCount_def loadPOSData_def or_else_def
        defaultPOSData_def mainChannel_def split: storage.splits option.splits)

lemma mainCount_add:
  "newId \<noteq> ''main'' \<Longrightarrow> addDistributionChannel newId f pd = Inr pd' \<Longrightarrow>
   mainCount pd' = mainCount pd"
  by (auto simp: addDistributionChannel_def mainCount_def Let_def split: upload.splits)

lemma mainCount_delete:
  assumes "deleteDistributionChannel cid pd = Inr pd'"
  shows "mainCount pd' = mainCount pd"
proof -
  from assms have ne: "cid \<noteq> ''main''"
    by (auto simp: deleteDistributionChannel_def split: if_splits)
  have "filter (\<lambda>c. chan_id c = ''main'') (filter (\<lambda>c. chan_id c \<noteq> cid) xs)
        = filter (\<lambda>c. chan_id c = ''main'') xs" for xs :: "channel list"
    using ne by (induction xs) auto
  with assms ne show ?thesis
    by (auto simp: deleteDistributionChannel_def mainCount_def simp del: filter_filter)
qed

text \<open>
  Claim C7, as stated, at a stored document whose channel list is the empty array: the
  array is truthy, so the loader keeps it, and the loaded state has no main channel.
\<close>

theorem loadPOSData_no_main_channel:
  "mainCount (loadPOSData (Parsed noChannelsDoc)) = 0"
  by (simp add: mainCount_def loadPOSData_def noChannelsDoc_def emptyDoc_def or_else_def)

text \<open>
  Claim C7, amended. In every state reached by adding and deleting channels from a
  loaded document whose stored channel list is absent or holds exactly one channel with
  the id \<open>main\<close>, exactly one channel has the id \<open>main\<close>, and a request to delete the
  channel \<open>main\<close> is refused, which leaves the document as it is.
\<close>

theorem main_channel_invariant:
  assumes "channel_reachable pd"
  shows "mainCount pd = 1 \<and> deleteDistributionChannel ''main'' pd = Inl CannotDeleteMainChannel"
proof -
  from assms have "mainCount pd = 1"
    by (induction rule: channel_reachable.induct)
       (simp_all add: mainCount_load mainCount_add mainCount_delete)
  then show ?thesis by (simp add: deleteDistributionChannel_def)
qed

theorem main_channel_invariant_witness:
  "channel_reachable branchDoc
   \<and> mainCount branchDoc = 1
   \<and> deleteDistributionChannel ''main'' branchDoc = Inl CannotDeleteMainChannel"
proof -
  have r0: "channel_reachable (loadPOSData NoItem)"
    by (rule channel_reachable.loaded) (simp add: one_main_stored_def)
  have ad: "addDistributionChannel ''7c9e6679-7425-40de-944b-e07fc1f90ae7'' branchForm
              (loadPOSData NoItem) = Inr branchDoc"
    by (simp add: addDistributionChannel_def branchForm_def branchDoc_def loadPOSData_def
          defaultPOSData_def trim_def js_space_def)
  have r: "channel_reachable branchDoc"
    by (rule channel_reachable.added [OF r0 _ ad]) simp
  from main_channel_invariant [OF r] r show ?thesis by simp
qed

section \<open>Stock loops\<close>





lemma stock_fold_length:
  "length (foldl (\<lambda>items l. update_first (p l) (f l) items) items ls) = length items"
  by (induction ls arbitrary: items) auto

section \<open>Stock receipts\<close>


lemma receiveStock_length [simp]: "length (receiveStock ls items) = length items"
  unfolding receiveStock_def by (rule stock_fold_length)





section \<open>Installments\<close>

text \<open>
  What the installment handler does apart from the customer's balance: it refuses an
  amount that is not a number, not positive or above the due amount, and on success it
  moves the amount from due to paid in the bill found, appends the record to the bill's
  history and to the payments, with the \<open>billId\<close> of the sale, and subtracts the amount
  from the outstanding credit of the first customer with the bill's \<open>customerId\<close>.
\<close>

lemma addInstallment_rejects:
  assumes "find (\<lambda>b. Some (cb_id b) = eid) (creditBills pd) = Some b"
      and "case installmentAmountInput f of None \<Rightarrow> True
           | Some amt \<Rightarrow> amt \<le> 0 \<or> cb_dueAmount b < amt"
  shows "addInstallment e f eid pd = Inl InvalidPaymentAmount
       \<or> addInstallment e f eid pd = Inl PaymentExceedsDue"
  using assms by (auto simp: addInstallment_def split: option.splits)

lemma addInstallment_effects:
  assumes "findIndex (\<lambda>b. Some (cb_id b) = eid) (creditBills pd) = Some k"
      and "addInstallment e f eid pd = Inr pd'"
  shows "\<exists>amt. installmentAmountInput f = Some amt \<and> 0 < amt
           \<and> amt \<le> cb_dueAmount (creditBills pd ! k)
           \<and> creditBills pd' =
               (creditBills pd)[k := (creditBills pd ! k)\<lparr>
                  cb_paidAmount := cb_paidAmount (creditBills pd ! k) + amt,
                  cb_dueAmount := cb_dueAmount (creditBills pd ! k) - amt,
                  cb_paymentHistory := cb_paymentHistory (creditBills pd ! k) @
                     [installmentRecord e f (creditBills pd ! k) amt]\<rparr>]
           \<and> payments pd' = payments pd @ [installmentRecord e f (creditBills pd ! k) amt]
           \<and> customers pd' =
               update_first (\<lambda>c. cust_id c = cb_customerId (creditBills pd ! k))
                 (\<lambda>c. c\<lparr>cust_outstandingCredit := cust_outstandingCredit c - amt\<rparr>)
                 (customers pd)"
proof -
  from assms(1) have fb: "find (\<lambda>b. Some (cb_id b) = eid) (creditBills pd) = Some (creditBills pd ! k)"
    by (simp add: find_findIndex)
  from assms(2) fb obtain amt where amt: "installmentAmountInput f = Some amt"
    by (auto simp: addInstallment_def split: option.splits)
  from assms(2) fb amt have rng: "0 < amt" "amt \<le> cb_dueAmount (creditBills pd ! k)"
    by (auto simp: addInstallment_def split: if_splits)
  from assms(2) fb amt rng assms(1) show ?thesis
    by (auto simp: addInstallment_def Let_def installmentRecord_def update_first_findIndex
             split: if_splits)
qed

text \<open>
  Claim C2. The subtraction from the customer's outstanding credit has no floor: for a
  customer who owes 100 and a bill of that customer with 150 due, an installment of 150 is
  accepted and leaves the outstanding credit at -50, where the claim has 0.
  \<open>deleteCreditBill\<close> does the same subtraction and resets a negative result to 0.
\<close>

theorem addInstallment_outstanding_negative:
  "addInstallment installmentEnv1 installmentForm1 (Some ''cb-1'') creditDoc =
     Inr (creditDoc\<lparr>
       creditBills := [creditBill1\<lparr>cb_paidAmount := 150, cb_dueAmount := 0,
                                    cb_paymentHistory := [installmentRecord1]\<rparr>, creditBill2],
       payments := [payment1, installmentRecord1],
       customers := [customer1\<lparr>cust_outstandingCredit := - 50\<rparr>, customer2]\<rparr>)"
  by (simp add: addInstallment_def creditDoc_def creditBill1_def creditBill2_def customer1_def
        customer2_def installmentEnv1_def installmentForm1_def installmentRecord1_def
        trim_def Let_def)

section \<open>Billing: amounts and the handler\<close>







lemma posData_renderCart [simp]: "posData (renderCart a) = posData a"
  by (simp add: renderCart_def Let_def)

lemma posData_resetBillingForm [simp]: "posData (resetBillingForm a) = posData a"
  by (simp add: resetBillingForm_def Let_def)





text \<open>
  The handler never dereferences \<open>selectedCustomer\<close> while it is \<open>null\<close>.
\<close>

lemma processBill_no_null_dereference: "processBill e a \<noteq> Inl NullDereference"
  by (auto simp: processBill_def Let_def resolveCustomer_def creditCheck_def readChequeDetails_def
       split: if_splits sum.splits option.splits prod.splits)








section \<open>Billing: the recorded totals\<close>






section \<open>Billing: the stock\<close>



lemma sellStock_length [simp]: "length (sellStock cart items) = length items"
  unfolding sellStock_def by (rule stock_fold_length)









section \<open>Sales and the objects of the inventory\<close>

text \<open>
  In the model that passes records by value, the two inventory operations do not touch
  the sales by construction.
\<close>

lemma editInventoryItemSubmit_sales:
  "editInventoryItemSubmit iid f pd = Inr pd' \<Longrightarrow> sales pd' = sales pd"
  by (auto simp: editInventoryItemSubmit_def Let_def split: option.splits prod.splits if_splits)

lemma deleteInventoryItem_sales: "sales (deleteInventoryItem iid pd) = sales pd"
  by (simp add: deleteInventoryItem_def)

text \<open>
  The sales hold addresses that no handler writes through: in every reachable store the
  addresses held by the sales are apart from those held by the inventory, by the cart and
  by an installed edit handler, because a sale gets new objects and every later allocation
  is newer still.
\<close>

lemma h_find_in: "h_find h p arr = Some a \<Longrightarrow> a \<in> set arr"
  by (auto simp: h_find_def find_Some_iff)

lemma sales_view_frame:
  assumes "st_sales st' = st_sales st"
      and "\<And>a. a \<in> sale_refs st \<Longrightarrow> st_heap st' ! a = st_heap st ! a"
  shows "sales_view st' = sales_view st"
proof -
  have "sale_view (st_heap st') s = sale_view (st_heap st) s" if "s \<in> set (st_sales st)" for s
  proof -
    have "\<And>a. a \<in> set (so_items s) \<Longrightarrow> st_heap st' ! a = st_heap st ! a"
      using assms(2) that by (auto simp: sale_refs_def)
    then show ?thesis by (simp add: sale_view_def)
  qed
  then show ?thesis unfolding sales_view_def assms(1) by simp
qed

lemma h_sellStock_length [simp]: "length (h_sellStock cart inv0 h) = length h"
  unfolding h_sellStock_def
  by (induction cart arbitrary: h) (auto split: option.splits)

lemma h_sellStock_frame:
  "a \<notin> set inv0 \<Longrightarrow> h_sellStock cart inv0 h ! a = h ! a"
  unfolding h_sellStock_def
proof (induction cart arbitrary: h)
  case Nil
  then show ?case by simp
next
  case (Cons c cart)
  show ?case
  proof (cases "h_find h (\<lambda>i. o_id i = o_id (h ! c)) inv0")
    case None
    then show ?thesis using Cons by simp
  next
    case (Some i)
    then have "i \<noteq> a" using Cons.prems h_find_in by fastforce
    then show ?thesis using Some Cons by simp
  qed
qed

lemma h_receiveStock_length [simp]: "length (h_receiveStock ls inv0 h) = length h"
  unfolding h_receiveStock_def
  by (induction ls arbitrary: h) (auto split: option.splits)

lemma h_receiveStock_frame:
  "a \<notin> set inv0 \<Longrightarrow> h_receiveStock ls inv0 h ! a = h ! a"
  unfolding h_receiveStock_def
proof (induction ls arbitrary: h)
  case Nil
  then show ?case by simp
next
  case (Cons l ls)
  show ?case
  proof (cases "h_find h (\<lambda>item. o_id item = gl_id l) inv0")
    case None
    then show ?thesis using Cons by simp
  next
    case (Some i)
    then have "i \<noteq> a" using Cons.prems h_find_in by fastforce
    then show ?thesis using Some Cons by simp
  qed
qed

lemma load_sales_refs:
  assumes "load_sales ss h = (sos, h')"
  shows "length h \<le> length h'
       \<and> (\<forall>s\<in>set sos. \<forall>a\<in>set (so_items s). length h \<le> a \<and> a < length h')"
  using assms
proof (induction ss arbitrary: h sos h')
  case Nil
  then show ?case by simp
next
  case (Cons s ss)
  obtain rest h1 where r: "load_sales ss (h @ map line_obj (sale_items s)) = (rest, h1)"
    by (cases "load_sales ss (h @ map line_obj (sale_items s))")
  from Cons.IH[OF r] have ih: "length h + length (sale_items s) \<le> length h1"
    "\<forall>x\<in>set rest. \<forall>a\<in>set (so_items x). length h + length (sale_items s) \<le> a \<and> a < length h1"
    by simp_all
  from Cons.prems r have h': "h' = h1" and sos: "so_items (hd sos) = [length h ..< length h + length (sale_items s)]"
    "tl sos = rest" "sos \<noteq> []"
    by (auto simp: Let_def)
  have "set sos = insert (hd sos) (set rest)" using sos by (cases sos) auto
  then show ?case using ih h' sos by fastforce
qed

lemma separated_load: "separated (h_load pd)"
proof -
  obtain ss h where l: "load_sales (sales pd) (map item_obj (inventory pd)) = (ss, h)"
    by (cases "load_sales (sales pd) (map item_obj (inventory pd))")
  from load_sales_refs[OF l] show ?thesis
    by (fastforce simp: separated_def h_load_def l sale_refs_def live_refs_def)
qed


lemma set_splice1: "set (splice1 k xs) \<subseteq> set xs"
  unfolding splice1_def using set_take_subset[of k xs] set_drop_subset[of "Suc k" xs] by auto

lemma separated_step:
  assumes "separated st"
      and "length (st_heap st) \<le> length (st_heap st')"
      and "sale_refs st' \<subseteq> sale_refs st \<union> S" and "live_refs st' \<subseteq> live_refs st \<union> L"
      and "\<And>a. a \<in> S \<union> L \<Longrightarrow> length (st_heap st) \<le> a \<and> a < length (st_heap st')"
      and "S \<inter> L = {}"
  shows "separated st'"
proof -
  from assms(1) have b: "\<And>a. a \<in> sale_refs st \<union> live_refs st \<Longrightarrow> a < length (st_heap st)"
    and d: "sale_refs st \<inter> live_refs st = {}"
    by (simp_all add: separated_def)
  have 1: "a < length (st_heap st')" if "a \<in> sale_refs st' \<union> live_refs st'" for a
  proof -
    from that assms(3,4) have "a \<in> sale_refs st \<union> live_refs st \<or> a \<in> S \<union> L" by blast
    then show ?thesis
    proof
      assume "a \<in> sale_refs st \<union> live_refs st"
      then have "a < length (st_heap st)" by (rule b)
      with assms(2) show ?thesis by linarith
    next
      assume "a \<in> S \<union> L"
      then show ?thesis using assms(5) by blast
    qed
  qed
  have 2: "False" if a: "a \<in> sale_refs st'" "a \<in> live_refs st'" for a
  proof -
    from a(1) assms(3) have s: "a \<in> sale_refs st \<or> a \<in> S" by blast
    from a(2) assms(4) have l: "a \<in> live_refs st \<or> a \<in> L" by blast
    have old: "a < length (st_heap st)" if "a \<in> sale_refs st \<or> a \<in> live_refs st"
      using that b[of a] by blast
    have new: "length (st_heap st) \<le> a" if "a \<in> S \<or> a \<in> L"
      using that assms(5)[of a] by blast
    from s l show False
    proof (elim disjE)
      assume "a \<in> sale_refs st" "a \<in> live_refs st" with d show False by blast
    next
      assume x: "a \<in> sale_refs st" "a \<in> L"
      with old new have "a < length (st_heap st)" "length (st_heap st) \<le> a" by blast+
      then show False by linarith
    next
      assume x: "a \<in> S" "a \<in> live_refs st"
      with old new have "a < length (st_heap st)" "length (st_heap st) \<le> a" by blast+
      then show False by linarith
    next
      assume "a \<in> S" "a \<in> L" with assms(6) show False by blast
    qed
  qed
  from 1 2 show ?thesis unfolding separated_def by blast
qed

lemma separated_same:
  assumes "separated st" and "length (st_heap st') = length (st_heap st)"
      and "sale_refs st' = sale_refs st" and "live_refs st' \<subseteq> live_refs st"
  shows "separated st'"
  by (rule separated_step[OF assms(1), where S = "{}" and L = "{}"]) (use assms in auto)

lemma h_addInventoryItem_Inr:
  assumes "h_addInventoryItem newId f st = Inr st'"
  shows "length (st_heap st') = Suc (length (st_heap st))
       \<and> st_inventory st' = st_inventory st @ [length (st_heap st)]
       \<and> st_cart st' = st_cart st \<and> st_sales st' = st_sales st \<and> st_editing st' = st_editing st"
  using assms
  by (auto simp: h_addInventoryItem_def split: option.splits prod.splits)

lemma separated_addInventoryItem:
  assumes "separated st" and "h_addInventoryItem newId f st = Inr st'"
  shows "separated st'"
proof (rule separated_step[OF assms(1), where S = "{}" and L = "{length (st_heap st)}"])
  note r = h_addInventoryItem_Inr[OF assms(2)]
  show "length (st_heap st) \<le> length (st_heap st')" using r by simp
  show "sale_refs st' \<subseteq> sale_refs st \<union> {}" using r by (simp add: sale_refs_def)
  show "live_refs st' \<subseteq> live_refs st \<union> {length (st_heap st)}"
    using r by (auto simp: live_refs_def)
  show "\<And>a. a \<in> {} \<union> {length (st_heap st)} \<Longrightarrow>
          length (st_heap st) \<le> a \<and> a < length (st_heap st')"
    using r by simp
  show "{} \<inter> {length (st_heap st)} = {}" by simp
qed

lemma separated_editInventoryItem:
  assumes "separated st" and "h_editInventoryItem iid st = Inr st'"
  shows "separated st'"
proof -
  from assms(2) obtain item where
    i: "h_find (st_heap st) (\<lambda>i. o_id i = iid) (st_inventory st) = Some item"
    and s: "st' = st\<lparr>st_editing := Some (iid, item)\<rparr>"
    by (auto simp: h_editInventoryItem_def split: option.splits)
  from i have "item \<in> set (st_inventory st)" by (rule h_find_in)
  then have "live_refs st' \<subseteq> live_refs st" by (auto simp: s live_refs_def)
  then show ?thesis
    by (intro separated_same[OF assms(1)]) (simp_all add: s sale_refs_def)
qed

lemma h_editSubmit_Inr:
  assumes "h_editSubmit f st = Inr st'"
  shows "length (st_heap st') = length (st_heap st)
       \<and> st_inventory st' = st_inventory st \<and> st_cart st' = st_cart st
       \<and> st_sales st' = st_sales st
       \<and> (st_editing st' = None \<or> st_editing st' = st_editing st)
       \<and> (\<forall>a. (\<forall>iid. st_editing st \<noteq> Some (iid, a)) \<longrightarrow> st_heap st' ! a = st_heap st ! a)"
  using assms
  by (auto simp: h_editSubmit_def Let_def split: option.splits prod.splits if_splits)

lemma separated_editSubmit:
  assumes "separated st" and "h_editSubmit f st = Inr st'"
  shows "separated st'"
proof -
  note r = h_editSubmit_Inr[OF assms(2)]
  have "live_refs st' \<subseteq> live_refs st" using r by (auto simp: live_refs_def)
  then show ?thesis
    using r by (intro separated_same[OF assms(1)]) (simp_all add: sale_refs_def)
qed

lemma separated_deleteInventoryItem:
  assumes "separated st"
  shows "separated (h_deleteInventoryItem iid st)"
  by (rule separated_same[OF assms])
     (auto simp: h_deleteInventoryItem_def sale_refs_def live_refs_def)

lemma h_addItemToCart_Inr:
  assumes "h_addItemToCart item q st = Inr st'"
  shows "st_inventory st' = st_inventory st \<and> st_sales st' = st_sales st
       \<and> st_editing st' = st_editing st
       \<and> ((length (st_heap st') = length (st_heap st) \<and> st_cart st' = st_cart st)
          \<or> (length (st_heap st') = Suc (length (st_heap st))
              \<and> st_cart st' = st_cart st @ [length (st_heap st)]))"
  using assms
  by (auto simp: h_addItemToCart_def Let_def split: option.splits if_splits)

lemma separated_addItemToCart:
  assumes "separated st" and "h_addItemToCart item q st = Inr st'"
  shows "separated st'"
proof (rule separated_step[OF assms(1), where S = "{}"
         and L = "{a. length (st_heap st) \<le> a \<and> a < length (st_heap st')}"])
  note r = h_addItemToCart_Inr[OF assms(2)]
  show "length (st_heap st) \<le> length (st_heap st')" using r by auto
  show "sale_refs st' \<subseteq> sale_refs st \<union> {}" using r by (simp add: sale_refs_def)
  show "live_refs st' \<subseteq> live_refs st \<union> {a. length (st_heap st) \<le> a \<and> a < length (st_heap st')}"
    using r by (auto simp: live_refs_def)
  show "\<And>a. a \<in> {} \<union> {a. length (st_heap st) \<le> a \<and> a < length (st_heap st')} \<Longrightarrow>
          length (st_heap st) \<le> a \<and> a < length (st_heap st')"
    by simp
  show "{} \<inter> {a. length (st_heap st) \<le> a \<and> a < length (st_heap st')} = {}" by simp
qed

lemma h_updateCartItemQuantity_shape:
  "length (st_heap (h_updateCartItemQuantity itemId newQty st)) = length (st_heap st)
   \<and> st_inventory (h_updateCartItemQuantity itemId newQty st) = st_inventory st
   \<and> st_sales (h_updateCartItemQuantity itemId newQty st) = st_sales st
   \<and> st_editing (h_updateCartItemQuantity itemId newQty st) = st_editing st
   \<and> set (st_cart (h_updateCartItemQuantity itemId newQty st)) \<subseteq> set (st_cart st)"
  using set_splice1[of _ "st_cart st"]
  by (auto simp: h_updateCartItemQuantity_def Let_def split: option.splits if_splits)

lemma separated_updateCartItemQuantity:
  assumes "separated st"
  shows "separated (h_updateCartItemQuantity itemId newQty st)"
proof -
  note r = h_updateCartItemQuantity_shape[of itemId newQty st]
  have "live_refs (h_updateCartItemQuantity itemId newQty st) \<subseteq> live_refs st"
    using r by (auto simp: live_refs_def)
  then show ?thesis
    using r by (intro separated_same[OF assms]) (simp_all add: sale_refs_def)
qed

lemma separated_removeCartItem:
  assumes "separated st"
  shows "separated (h_removeCartItem itemId st)"
  by (rule separated_same[OF assms])
     (auto simp: h_removeCartItem_def sale_refs_def live_refs_def)

lemma h_processBill_Inr:
  assumes "h_processBill e f cs st = Inr st'"
  shows "\<exists>newSale.
      st_heap st' = h_sellStock (st_cart st) (st_inventory st)
                     (st_heap st @ map (\<lambda>a. st_heap st ! a) (st_cart st))
    \<and> st_sales st' = st_sales st @ [newSale]
    \<and> so_items newSale = [length (st_heap st) ..< length (st_heap st) + length (st_cart st)]
    \<and> st_cart st' = [] \<and> st_inventory st' = st_inventory st
    \<and> st_editing st' = st_editing st
    \<and> so_subtotal newSale = cartSubtotalSpan f \<and> so_grandTotal newSale = cartGrandtotalSpan f
    \<and> so_discountAmount newSale = cartSubtotalSpan f - cartGrandtotalSpan f"
  using assms
  by (auto simp: h_processBill_def Let_def split: if_splits sum.splits option.splits prod.splits)

lemma separated_processBill:
  assumes "separated st" and "h_processBill e f cs st = Inr st'"
  shows "separated st'"
proof (rule separated_step[OF assms(1), where L = "{}"
         and S = "{length (st_heap st) ..< length (st_heap st) + length (st_cart st)}"])
  from h_processBill_Inr[OF assms(2)] obtain newSale where n:
    "st_heap st' = h_sellStock (st_cart st) (st_inventory st)
                     (st_heap st @ map (\<lambda>a. st_heap st ! a) (st_cart st))"
    "st_sales st' = st_sales st @ [newSale]"
    "so_items newSale = [length (st_heap st) ..< length (st_heap st) + length (st_cart st)]"
    "st_cart st' = []" "st_inventory st' = st_inventory st" "st_editing st' = st_editing st"
    by blast
  show "length (st_heap st) \<le> length (st_heap st')" by (simp add: n)
  show "sale_refs st' \<subseteq> sale_refs st \<union> {length (st_heap st) ..< length (st_heap st) + length (st_cart st)}"
    by (auto simp: sale_refs_def n)
  show "live_refs st' \<subseteq> live_refs st \<union> {}" by (auto simp: live_refs_def n)
  show "\<And>a. a \<in> {length (st_heap st) ..< length (st_heap st) + length (st_cart st)} \<union> {} \<Longrightarrow>
          length (st_heap st) \<le> a \<and> a < length (st_heap st')"
    by (simp add: n)
  show "{length (st_heap st) ..< length (st_heap st) + length (st_cart st)} \<inter> {} = {}" by simp
qed

lemma separated_createGrn:
  assumes "separated st" and "h_createGrn gf ls st = Inr st'"
  shows "separated st'"
proof -
  from assms(2) have s: "st' = st\<lparr>st_heap := h_receiveStock ls (st_inventory st) (st_heap st)\<rparr>"
    by (auto simp: h_createGrn_def split: if_splits)
  show ?thesis
    by (rule separated_same[OF assms(1)]) (simp_all add: s sale_refs_def live_refs_def)
qed

lemma reachable_separated: "store_reachable st \<Longrightarrow> separated st"
proof (induction rule: store_reachable.induct)
  case (r_load pd) show ?case by (rule separated_load)
next
  case (r_addItem st newId f st') then show ?case by (blast intro: separated_addInventoryItem)
next
  case (r_edit st iid st') then show ?case by (blast intro: separated_editInventoryItem)
next
  case (r_editSubmit st f st') then show ?case by (blast intro: separated_editSubmit)
next
  case (r_delete st iid) then show ?case by (blast intro: separated_deleteInventoryItem)
next
  case (r_addToCart st item quantity st') then show ?case by (blast intro: separated_addItemToCart)
next
  case (r_updateQty st itemId newQty) then show ?case
    by (blast intro: separated_updateCartItemQuantity)
next
  case (r_removeLine st itemId) then show ?case by (blast intro: separated_removeCartItem)
next
  case (r_processBill st e bf cs st') then show ?case by (blast intro: separated_processBill)
next
  case (r_createGrn st gf ls st') then show ?case by (blast intro: separated_createGrn)
qed

lemma editSubmit_sales_view:
  assumes "separated st" and "h_editSubmit f st = Inr st'"
  shows "sales_view st' = sales_view st"
proof (rule sales_view_frame)
  note r = h_editSubmit_Inr[OF assms(2)]
  show "st_sales st' = st_sales st" using r by simp
  fix a assume a: "a \<in> sale_refs st"
  have "st_editing st \<noteq> Some (iid, a)" for iid
  proof
    assume "st_editing st = Some (iid, a)"
    then have "a \<in> live_refs st" by (simp add: live_refs_def)
    with a assms(1) show False by (auto simp: separated_def)
  qed
  with r show "st_heap st' ! a = st_heap st ! a" by blast
qed

lemma delete_sales_view: "sales_view (h_deleteInventoryItem iid st) = sales_view st"
  by (rule sales_view_frame) (simp_all add: h_deleteInventoryItem_def)

lemma map_nth_append_upt:
  "map (\<lambda>a. f ((h @ cs) ! a)) [length h ..< length h + length cs] = map f cs"
  by (rule nth_equalityI) (simp_all add: nth_append)

lemma h_processBill_snapshot:
  assumes "separated st" and "h_processBill e f cs st = Inr st'"
  shows "\<exists>S. sales_view st' = sales_view st @ [S]
           \<and> sale_items S = map (\<lambda>a. line_of (st_heap st ! a)) (st_cart st)
           \<and> sale_subtotal S = cartSubtotalSpan f
           \<and> sale_grandTotal S = cartGrandtotalSpan f
           \<and> sale_discountAmount S = cartSubtotalSpan f - cartGrandtotalSpan f"
proof -
  let ?h = "st_heap st"
  let ?copies = "map (\<lambda>a. ?h ! a) (st_cart st)"
  from h_processBill_Inr[OF assms(2)] obtain newSale where n:
    "st_heap st' = h_sellStock (st_cart st) (st_inventory st) (?h @ ?copies)"
    "st_sales st' = st_sales st @ [newSale]"
    "so_items newSale = [length ?h ..< length ?h + length (st_cart st)]"
    "so_subtotal newSale = cartSubtotalSpan f" "so_grandTotal newSale = cartGrandtotalSpan f"
    "so_discountAmount newSale = cartSubtotalSpan f - cartGrandtotalSpan f"
    by blast
  from assms(1) have inv: "\<And>a. a \<in> set (st_inventory st) \<Longrightarrow> a < length ?h"
    and sr: "\<And>a. a \<in> sale_refs st \<Longrightarrow> a < length ?h \<and> a \<notin> set (st_inventory st)"
    by (auto simp: separated_def live_refs_def)
  have old: "st_heap st' ! a = ?h ! a" if "a \<in> sale_refs st" for a
    using sr[OF that] by (simp add: n h_sellStock_frame nth_append)
  have new: "st_heap st' ! a = (?h @ ?copies) ! a" if "length ?h \<le> a" for a
  proof -
    have "a \<notin> set (st_inventory st)" using inv[of a] that by auto
    then show ?thesis by (simp add: n h_sellStock_frame)
  qed
  have o: "map (sale_view (st_heap st')) (st_sales st) = sales_view st"
  proof -
    have "sale_view (st_heap st') s = sale_view ?h s" if "s \<in> set (st_sales st)" for s
    proof -
      have "\<And>a. a \<in> set (so_items s) \<Longrightarrow> st_heap st' ! a = ?h ! a"
        using old that by (auto simp: sale_refs_def)
      then show ?thesis by (simp add: sale_view_def)
    qed
    then show ?thesis by (simp add: sales_view_def)
  qed
  have "map (\<lambda>a. line_of (st_heap st' ! a)) [length ?h ..< length ?h + length (st_cart st)]
        = map (\<lambda>a. line_of ((?h @ ?copies) ! a)) [length ?h ..< length ?h + length (st_cart st)]"
    using new by simp
  also have "\<dots> = map line_of ?copies"
    using map_nth_append_upt[of line_of ?h ?copies] by simp
  finally have it: "sale_items (sale_view (st_heap st') newSale)
                    = map (\<lambda>a. line_of (?h ! a)) (st_cart st)"
    by (simp add: sale_view_def n comp_def)
  have "sales_view st' = map (sale_view (st_heap st')) (st_sales st)
                           @ [sale_view (st_heap st') newSale]"
    unfolding sales_view_def n(2) by simp
  then have "sales_view st' = sales_view st @ [sale_view (st_heap st') newSale]"
    by (simp only: o)
  moreover have "sale_subtotal (sale_view (st_heap st') newSale) = cartSubtotalSpan f"
    "sale_grandTotal (sale_view (st_heap st') newSale) = cartGrandtotalSpan f"
    "sale_discountAmount (sale_view (st_heap st') newSale)
       = cartSubtotalSpan f - cartGrandtotalSpan f"
    by (simp_all add: sale_view_def n)
  ultimately show ?thesis using it by blast
qed

text \<open>
  Claim C9. In every store that the operations produce from a loaded document, the submit
  handler that \<open>editInventoryItem\<close> installed (which rewrites code, name, description,
  price, stock and threshold of the object it captured) and \<open>deleteInventoryItem\<close> leave
  the sales as they are: the same sales, each with the same totals and with lines that
  read as before. By \<open>h_processBill_snapshot\<close> these are the values that the cart lines
  had when the bill was processed.
\<close>

theorem sales_unchanged_by_inventory_edits:
  assumes "store_reachable st"
  shows "(\<forall>f st'. h_editSubmit f st = Inr st' \<longrightarrow> sales_view st' = sales_view st)
       \<and> (\<forall>iid. sales_view (h_deleteInventoryItem iid st) = sales_view st)"
  using reachable_separated[OF assms] editSubmit_sales_view delete_sales_view by blast

theorem sales_unchanged_by_inventory_edits_witness:
  "store_reachable editingStore
   \<and> h_editSubmit priceForm editingStore = Inr (projr (h_editSubmit priceForm editingStore))
   \<and> sales_view (projr (h_editSubmit priceForm editingStore)) = sales_view editingStore
   \<and> sales_view (h_deleteInventoryItem ''item-1'' editingStore) = sales_view editingStore
   \<and> map (\<lambda>s. map line_price (sale_items s)) (sales_view editingStore) = [[100]]
   \<and> map (\<lambda>s. map line_qty (sale_items s)) (sales_view editingStore) = [[3]]
   \<and> map (\<lambda>a. o_price (st_heap (projr (h_editSubmit priceForm editingStore)) ! a))
        (st_inventory (projr (h_editSubmit priceForm editingStore))) = [999, 333 / 100]"
proof -
  have "\<not> isl (h_addItemToCart (item_obj item1) 3 (h_load shopDoc))" by code_simp
  then have 1: "h_addItemToCart (item_obj item1) 3 (h_load shopDoc) = Inr cartStore"
    by (simp add: cartStore_def)
  have "\<not> isl (h_processBill billEnv1 (billing soapApp) (customers shopDoc) cartStore)"
    by code_simp
  then have 2: "h_processBill billEnv1 (billing soapApp) (customers shopDoc) cartStore
                = Inr soldStore"
    by (simp add: soldStore_def)
  have "\<not> isl (h_editInventoryItem ''item-1'' soldStore)" by code_simp
  then have 3: "h_editInventoryItem ''item-1'' soldStore = Inr editingStore"
    by (simp add: editingStore_def)
  have r: "store_reachable editingStore"
    by (rule store_reachable.r_edit[OF _ 3], rule store_reachable.r_processBill[OF _ 2],
        rule store_reachable.r_addToCart[OF _ 1], rule store_reachable.r_load)
  have "\<not> isl (h_editSubmit priceForm editingStore)" by code_simp
  then have 4: "h_editSubmit priceForm editingStore = Inr (projr (h_editSubmit priceForm editingStore))"
    by simp
  have v: "map (\<lambda>s. map line_price (sale_items s)) (sales_view editingStore) = [[100]]"
    "map (\<lambda>s. map line_qty (sale_items s)) (sales_view editingStore) = [[3]]"
    "map (\<lambda>a. o_price (st_heap (projr (h_editSubmit priceForm editingStore)) ! a))
        (st_inventory (projr (h_editSubmit priceForm editingStore))) = [999, 333 / 100]"
    by code_simp+
  from sales_unchanged_by_inventory_edits [OF r] 4 r v show ?thesis by metis
qed

end
